theory Spec2Isabelle
  imports Main "HOL-Library.Word"
begin

unbundle bit_operations_syntax

section \<open>The Tegra186 GPIO driver (drivers/gpio/gpio-tegra186.c)\<close>

text \<open>
  The driver is embedded function by function. C's \<open>u32\<close> is \<open>32 word\<close>, C's \<open>int\<close>
  is \<open>int\<close> (no \<open>int\<close> of the driver leaves the 32-bit range on the identifiers the
  GPIO core hands over). Registers are a store indexed by the register window and the
  byte offset in it; every access to the store, every call of a collaborator and every
  log line is appended to a trace, so that the order of the effects and their absence
  can be stated.
\<close>

type_synonym u32 = "32 word"

subsection \<open>Register layout\<close>

definition BIT :: "nat \<Rightarrow> u32" where
  "BIT n = push_bit n 1"

definition GPIO_ENB_CONFIG_REG :: u32 where "GPIO_ENB_CONFIG_REG = 0x00"
definition GPIO_ENB_BIT :: u32 where "GPIO_ENB_BIT = BIT 0"
definition GPIO_INOUT_BIT :: u32 where "GPIO_INOUT_BIT = BIT 1"
definition GPIO_TRG_TYPE_BIT_OFFSET :: nat where "GPIO_TRG_TYPE_BIT_OFFSET = 0x2"
definition GPIO_TRG_LVL_BIT :: u32 where "GPIO_TRG_LVL_BIT = BIT 4"
definition GPIO_DEB_FUNC_BIT :: u32 where "GPIO_DEB_FUNC_BIT = BIT 5"
definition GPIO_INT_FUNC_BIT :: u32 where "GPIO_INT_FUNC_BIT = BIT 6"

definition GPIO_DBC_THRES_REG :: u32 where "GPIO_DBC_THRES_REG = 0x04"
definition GPIO_INPUT_REG :: u32 where "GPIO_INPUT_REG = 0x08"
definition GPIO_OUT_CTRL_REG :: u32 where "GPIO_OUT_CTRL_REG = 0x0c"
definition GPIO_OUT_VAL_REG :: u32 where "GPIO_OUT_VAL_REG = 0x10"
definition GPIO_INT_CLEAR_REG :: u32 where "GPIO_INT_CLEAR_REG = 0x14"

definition GPIO_REG_DIFF :: int where "GPIO_REG_DIFF = 0x20"

definition GPIO_SCR_REG :: int where "GPIO_SCR_REG = 0x04"
definition GPIO_SCR_DIFF :: int where "GPIO_SCR_DIFF = 0x08"

definition GPIO_SCR_SEC_WEN :: u32 where "GPIO_SCR_SEC_WEN = BIT 28"
definition GPIO_SCR_SEC_REN :: u32 where "GPIO_SCR_SEC_REN = BIT 27"
definition GPIO_SCR_SEC_G1R :: u32 where "GPIO_SCR_SEC_G1R = BIT 1"
definition GPIO_SCR_SEC_G1W :: u32 where "GPIO_SCR_SEC_G1W = BIT 9"

definition GPIO_INT_LVL_NO_TRIGGER :: u32 where "GPIO_INT_LVL_NO_TRIGGER = 0x0"
definition GPIO_INT_LVL_LEVEL_TRIGGER :: u32 where "GPIO_INT_LVL_LEVEL_TRIGGER = 0x1"
definition GPIO_INT_LVL_SINGLE_EDGE_TRIGGER :: u32 where
  "GPIO_INT_LVL_SINGLE_EDGE_TRIGGER = 0x2"
definition GPIO_INT_LVL_BOTH_EDGE_TRIGGER :: u32 where
  "GPIO_INT_LVL_BOTH_EDGE_TRIGGER = 0x3"

definition TRIGGER_LEVEL_LOW :: u32 where "TRIGGER_LEVEL_LOW = 0x0"
definition TRIGGER_LEVEL_HIGH :: u32 where "TRIGGER_LEVEL_HIGH = 0x1"

definition GPIO_INT_STATUS_OFFSET :: int where "GPIO_INT_STATUS_OFFSET = 0x100"
definition GPIO_STATUS_G1 :: int where "GPIO_STATUS_G1 = 0x04"

definition GPIO_FULL_ACCESS :: u32 where
  "GPIO_FULL_ACCESS =
     (GPIO_SCR_SEC_WEN OR GPIO_SCR_SEC_REN OR GPIO_SCR_SEC_G1R OR GPIO_SCR_SEC_G1W)"

definition MAX_GPIO_PORTS :: nat where "MAX_GPIO_PORTS = 8"
definition MAX_PORTS :: nat where "MAX_PORTS = 32"
definition MAX_PINS_PER_PORT :: nat where "MAX_PINS_PER_PORT = 8"

text \<open>\<open>GPIO_PORT(g)\<close> is \<open>g >> 3\<close> and \<open>GPIO_PIN(g)\<close> is \<open>g & 0x7\<close>; both are stored
  in an \<open>int\<close> by their users.\<close>

definition GPIO_PORT :: "u32 \<Rightarrow> int" where
  "GPIO_PORT g = uint (drop_bit 3 g)"

definition GPIO_PIN :: "u32 \<Rightarrow> int" where
  "GPIO_PIN g = uint (g AND 0x7)"

text \<open>The error numbers of the kernel's errno headers that the driver returns.\<close>

definition EBUSY :: int where "EBUSY = 16"
definition EINVAL :: int where "EINVAL = 22"

text \<open>The error numbers with which the kernel reports an unsupported operation; the
  driver uses none of them.\<close>

definition ENOSYS :: int where "ENOSYS = 38"
definition EOPNOTSUPP :: int where "EOPNOTSUPP = 95"
definition ENOTSUPP :: int where "ENOTSUPP = 524"

text \<open>The trigger types of the kernel's \<open>linux/irq.h\<close>.\<close>

definition IRQ_TYPE_EDGE_RISING :: u32 where "IRQ_TYPE_EDGE_RISING = 0x1"
definition IRQ_TYPE_EDGE_FALLING :: u32 where "IRQ_TYPE_EDGE_FALLING = 0x2"
definition IRQ_TYPE_EDGE_BOTH :: u32 where
  "IRQ_TYPE_EDGE_BOTH = (IRQ_TYPE_EDGE_FALLING OR IRQ_TYPE_EDGE_RISING)"
definition IRQ_TYPE_LEVEL_HIGH :: u32 where "IRQ_TYPE_LEVEL_HIGH = 0x4"
definition IRQ_TYPE_LEVEL_LOW :: u32 where "IRQ_TYPE_LEVEL_LOW = 0x8"
definition IRQ_TYPE_SENSE_MASK :: u32 where "IRQ_TYPE_SENSE_MASK = 0xf"

subsection \<open>Topology table\<close>

text \<open>
  Modelled from the spec: the header \<open>dt-bindings/gpio/tegra186-gpio.h\<close>, which defines
  the bank numbers \<open>TEGRA_GPIO_BANK_ID_*\<close> and the macro \<open>TEGRA_GPIO\<close>, is not among
  the sources. The banks are numbered in the order in which \<open>tegra_gpio_cinfo\<close> lists
  them, A = 0 up to FF = 31 (the 32 ports of the data model), and a pin identifier is
  the port number times 8 plus the pin in the port.
\<close>

datatype bank = Bank_A | Bank_B | Bank_C | Bank_D | Bank_E | Bank_F | Bank_G | Bank_H
  | Bank_I | Bank_J | Bank_K | Bank_L | Bank_M | Bank_N | Bank_O | Bank_P
  | Bank_Q | Bank_R | Bank_S | Bank_T | Bank_U | Bank_V | Bank_W | Bank_X
  | Bank_Y | Bank_Z | Bank_AA | Bank_BB | Bank_CC | Bank_DD | Bank_EE | Bank_FF

fun TEGRA_GPIO_BANK_ID :: "bank \<Rightarrow> int" where
  "TEGRA_GPIO_BANK_ID Bank_A = 0" | "TEGRA_GPIO_BANK_ID Bank_B = 1"
| "TEGRA_GPIO_BANK_ID Bank_C = 2" | "TEGRA_GPIO_BANK_ID Bank_D = 3"
| "TEGRA_GPIO_BANK_ID Bank_E = 4" | "TEGRA_GPIO_BANK_ID Bank_F = 5"
| "TEGRA_GPIO_BANK_ID Bank_G = 6" | "TEGRA_GPIO_BANK_ID Bank_H = 7"
| "TEGRA_GPIO_BANK_ID Bank_I = 8" | "TEGRA_GPIO_BANK_ID Bank_J = 9"
| "TEGRA_GPIO_BANK_ID Bank_K = 10" | "TEGRA_GPIO_BANK_ID Bank_L = 11"
| "TEGRA_GPIO_BANK_ID Bank_M = 12" | "TEGRA_GPIO_BANK_ID Bank_N = 13"
| "TEGRA_GPIO_BANK_ID Bank_O = 14" | "TEGRA_GPIO_BANK_ID Bank_P = 15"
| "TEGRA_GPIO_BANK_ID Bank_Q = 16" | "TEGRA_GPIO_BANK_ID Bank_R = 17"
| "TEGRA_GPIO_BANK_ID Bank_S = 18" | "TEGRA_GPIO_BANK_ID Bank_T = 19"
| "TEGRA_GPIO_BANK_ID Bank_U = 20" | "TEGRA_GPIO_BANK_ID Bank_V = 21"
| "TEGRA_GPIO_BANK_ID Bank_W = 22" | "TEGRA_GPIO_BANK_ID Bank_X = 23"
| "TEGRA_GPIO_BANK_ID Bank_Y = 24" | "TEGRA_GPIO_BANK_ID Bank_Z = 25"
| "TEGRA_GPIO_BANK_ID Bank_AA = 26" | "TEGRA_GPIO_BANK_ID Bank_BB = 27"
| "TEGRA_GPIO_BANK_ID Bank_CC = 28" | "TEGRA_GPIO_BANK_ID Bank_DD = 29"
| "TEGRA_GPIO_BANK_ID Bank_EE = 30" | "TEGRA_GPIO_BANK_ID Bank_FF = 31"

definition TEGRA_GPIO :: "bank \<Rightarrow> int \<Rightarrow> int" where
  "TEGRA_GPIO b offset = TEGRA_GPIO_BANK_ID b * 8 + offset"

record tegra_gpio_port_chip_info =
  cont_id :: int
  cont_index :: int
  valid_pins :: int
  reg_index :: int
  scr_offset :: int
  reg_offset :: u32

definition TEGRA_GPIO_PORT_INFO :: "int \<Rightarrow> int \<Rightarrow> int \<Rightarrow> tegra_gpio_port_chip_info" where
  "TEGRA_GPIO_PORT_INFO cid cind npins =
     \<lparr>cont_id = cid, cont_index = cind, valid_pins = npins, reg_index = 0,
      scr_offset = cid * 0x1000 + cind * 0x40,
      reg_offset = word_of_int (0x10000 + cid * 0x1000 + cind * 0x200)\<rparr>"

definition TEGRA_AON_GPIO_PORT_INFO :: "int \<Rightarrow> int \<Rightarrow> int \<Rightarrow> tegra_gpio_port_chip_info" where
  "TEGRA_AON_GPIO_PORT_INFO cid cind npins =
     \<lparr>cont_id = cid, cont_index = cind, valid_pins = npins, reg_index = 1,
      scr_offset = cind * 0x40,
      reg_offset = word_of_int (0x1000 + cind * 0x200)\<rparr>"

text \<open>The array's designated initialisers are written in the order of the bank numbers,
  so the list below is the array: entry \<open>p\<close> is port \<open>p\<close>.\<close>

definition tegra_gpio_cinfo :: "tegra_gpio_port_chip_info list" where
  "tegra_gpio_cinfo =
    [TEGRA_GPIO_PORT_INFO 2 0 7,       \<comment> \<open>A\<close>
     TEGRA_GPIO_PORT_INFO 3 0 7,       \<comment> \<open>B\<close>
     TEGRA_GPIO_PORT_INFO 3 1 7,       \<comment> \<open>C\<close>
     TEGRA_GPIO_PORT_INFO 3 2 6,       \<comment> \<open>D\<close>
     TEGRA_GPIO_PORT_INFO 2 1 8,       \<comment> \<open>E\<close>
     TEGRA_GPIO_PORT_INFO 2 2 6,       \<comment> \<open>F\<close>
     TEGRA_GPIO_PORT_INFO 4 1 6,       \<comment> \<open>G\<close>
     TEGRA_GPIO_PORT_INFO 1 0 7,       \<comment> \<open>H\<close>
     TEGRA_GPIO_PORT_INFO 0 4 8,       \<comment> \<open>I\<close>
     TEGRA_GPIO_PORT_INFO 5 0 8,       \<comment> \<open>J\<close>
     TEGRA_GPIO_PORT_INFO 5 1 1,       \<comment> \<open>K\<close>
     TEGRA_GPIO_PORT_INFO 1 1 8,       \<comment> \<open>L\<close>
     TEGRA_GPIO_PORT_INFO 5 3 6,       \<comment> \<open>M\<close>
     TEGRA_GPIO_PORT_INFO 0 0 7,       \<comment> \<open>N\<close>
     TEGRA_GPIO_PORT_INFO 0 1 4,       \<comment> \<open>O\<close>
     TEGRA_GPIO_PORT_INFO 4 0 7,       \<comment> \<open>P\<close>
     TEGRA_GPIO_PORT_INFO 0 2 6,       \<comment> \<open>Q\<close>
     TEGRA_GPIO_PORT_INFO 0 5 6,       \<comment> \<open>R\<close>
     TEGRA_AON_GPIO_PORT_INFO 6 1 5,   \<comment> \<open>S\<close>
     TEGRA_GPIO_PORT_INFO 0 3 4,       \<comment> \<open>T\<close>
     TEGRA_AON_GPIO_PORT_INFO 6 2 6,   \<comment> \<open>U\<close>
     TEGRA_AON_GPIO_PORT_INFO 6 4 8,   \<comment> \<open>V\<close>
     TEGRA_AON_GPIO_PORT_INFO 6 5 8,   \<comment> \<open>W\<close>
     TEGRA_GPIO_PORT_INFO 1 2 8,       \<comment> \<open>X\<close>
     TEGRA_GPIO_PORT_INFO 1 3 7,       \<comment> \<open>Y\<close>
     TEGRA_AON_GPIO_PORT_INFO 6 7 4,   \<comment> \<open>Z\<close>
     TEGRA_AON_GPIO_PORT_INFO 6 6 8,   \<comment> \<open>AA\<close>
     TEGRA_GPIO_PORT_INFO 2 3 2,       \<comment> \<open>BB\<close>
     TEGRA_GPIO_PORT_INFO 5 2 4,       \<comment> \<open>CC\<close>
     TEGRA_GPIO_PORT_INFO (-1) (-1) 0, \<comment> \<open>DD\<close>
     TEGRA_AON_GPIO_PORT_INFO 6 3 3,   \<comment> \<open>EE\<close>
     TEGRA_AON_GPIO_PORT_INFO 6 0 5    \<comment> \<open>FF\<close>
    ]"

text \<open>
  \<open>tegra_gpio_cinfo[port]\<close>. The GPIO core and the interrupt domain are registered with
  \<open>MAX_PORTS * MAX_PINS_PER_PORT = 256\<close> lines, so the port of every identifier the
  driver receives is below 32; C gives a read beyond the array no meaning, and the
  theorems below are stated for identifiers below 256.
\<close>

definition cinfo :: "int \<Rightarrow> tegra_gpio_port_chip_info" where
  "cinfo port = tegra_gpio_cinfo ! nat port"

subsection \<open>Registers, collaborators and the trace of effects\<close>

datatype log_msg =
    WakeFound int int            \<comment> \<open>\<open>pr_info("gpio wake%d for gpio=%d")\<close>\<close>
  | PinctrlInputFailed int       \<comment> \<open>\<open>dev_err("... pinctrl input failed: %d")\<close>\<close>
  | PinctrlOutputFailed int      \<comment> \<open>\<open>dev_err("... pinctrl output failed: %d")\<close>\<close>
  | WakeFailed u32 int           \<comment> \<open>\<open>pr_err("Failed gpio lp0 %s ..., error=%d")\<close>\<close>

datatype flow_handler = handle_level_irq | handle_edge_irq

datatype event =
    RegRead int int              \<comment> \<open>\<open>__raw_readl(regs[window] + offset)\<close>\<close>
  | RegWrite int int u32         \<comment> \<open>\<open>__raw_writel(value, regs[window] + offset)\<close>\<close>
  | PinctrlRequest u32
  | PinctrlFree u32
  | PinctrlDirectionInput u32
  | PinctrlDirectionOutput u32
  | PmSetWake int u32
  | PmSetWakeType int u32
  | SetHandler flow_handler
  | ChainedEnter
  | ChainedExit
  | Dispatch u32                 \<comment> \<open>\<open>generic_handle_irq(gpio_to_irq(gpio))\<close>\<close>
  | Log log_msg

record hw =
  regs :: "int \<times> int \<Rightarrow> u32"
  trace :: "event list"

text \<open>What the collaborators answer: the pin-multiplexing subsystem, the wake-event
  registry, and the handlers that the generic interrupt layer runs on a dispatch (they
  may change registers).\<close>

record collaborators =
  pinctrl_request_gpio :: "u32 \<Rightarrow> int"
  pinctrl_gpio_direction_input :: "u32 \<Rightarrow> int"
  pinctrl_gpio_direction_output :: "u32 \<Rightarrow> int"
  tegra_pm_irq_set_wake :: "int \<Rightarrow> u32 \<Rightarrow> int"
  generic_handle_irq :: "u32 \<Rightarrow> (int \<times> int \<Rightarrow> u32) \<Rightarrow> (int \<times> int \<Rightarrow> u32)"

definition emit :: "event \<Rightarrow> hw \<Rightarrow> hw" where
  "emit e s = s\<lparr>trace := trace s @ [e]\<rparr>"

definition raw_readl :: "int \<Rightarrow> int \<Rightarrow> hw \<Rightarrow> u32 \<times> hw" where
  "raw_readl window off s = (regs s (window, off), emit (RegRead window off) s)"

definition raw_writel :: "u32 \<Rightarrow> int \<Rightarrow> int \<Rightarrow> hw \<Rightarrow> hw" where
  "raw_writel val window off s =
     emit (RegWrite window off val) (s\<lparr>regs := (regs s)((window, off) := val)\<rparr>)"

subsection \<open>Register access\<close>

definition tegra_gpio_readl :: "u32 \<Rightarrow> u32 \<Rightarrow> hw \<Rightarrow> u32 \<times> hw" where
  "tegra_gpio_readl gpio reg s =
     (let port = GPIO_PORT gpio;
          pin = GPIO_PIN gpio;
          addr = reg_offset (cinfo port);
          rindex = reg_index (cinfo port);
          addr = addr + (word_of_int (GPIO_REG_DIFF * pin) + reg)
      in raw_readl rindex (uint addr) s)"

definition tegra_gpio_writel :: "u32 \<Rightarrow> u32 \<Rightarrow> u32 \<Rightarrow> hw \<Rightarrow> hw" where
  "tegra_gpio_writel val gpio reg s =
     (let port = GPIO_PORT gpio;
          pin = GPIO_PIN gpio;
          addr = reg_offset (cinfo port);
          rindex = reg_index (cinfo port);
          addr = addr + (word_of_int (GPIO_REG_DIFF * pin) + reg)
      in raw_writel val rindex (uint addr) s)"

definition tegra_gpio_update :: "u32 \<Rightarrow> u32 \<Rightarrow> u32 \<Rightarrow> u32 \<Rightarrow> hw \<Rightarrow> hw" where
  "tegra_gpio_update gpio reg msk val s =
     (let port = GPIO_PORT gpio;
          pin = GPIO_PIN gpio;
          addr = reg_offset (cinfo port);
          rindex = reg_index (cinfo port);
          addr = addr + (word_of_int (GPIO_REG_DIFF * pin) + reg);
          (rval, s1) = raw_readl rindex (uint addr) s;
          rval = (rval AND NOT msk) OR (val AND msk)
      in raw_writel rval rindex (uint addr) s1)"

subsection \<open>Accessibility\<close>

definition is_gpio_accessible :: "u32 \<Rightarrow> hw \<Rightarrow> bool \<times> hw" where
  "is_gpio_accessible offset s =
     (let port = GPIO_PORT offset;
          pin = GPIO_PIN offset;
          scr_off = (word_of_int (scr_offset (cinfo port)) :: u32)
      in if pin \<ge> valid_pins (cinfo port) then (False, s)
         else let cid = cont_id (cinfo port)
              in if cid < 0 then (False, s)
                 else let rindex = reg_index (cinfo port);
                          (val, s1) = raw_readl rindex
                             (uint scr_off + pin * GPIO_SCR_DIFF + GPIO_SCR_REG) s
                      in if val AND GPIO_FULL_ACCESS = GPIO_FULL_ACCESS then (True, s1)
                         else (False, s1))"

subsection \<open>Wake table\<close>

definition tegra186_gpio_wakes :: "int list" where
  "tegra186_gpio_wakes =
    [TEGRA_GPIO Bank_A 6, TEGRA_GPIO Bank_A 2, TEGRA_GPIO Bank_A 5, TEGRA_GPIO Bank_D 3,
     TEGRA_GPIO Bank_E 3, TEGRA_GPIO Bank_G 3, - EINVAL, TEGRA_GPIO Bank_B 3,
     TEGRA_GPIO Bank_B 5, TEGRA_GPIO Bank_C 0, TEGRA_GPIO Bank_S 2, TEGRA_GPIO Bank_H 2,
     TEGRA_GPIO Bank_J 5, TEGRA_GPIO Bank_J 6, TEGRA_GPIO Bank_J 7, TEGRA_GPIO Bank_K 0,
     TEGRA_GPIO Bank_Q 1, TEGRA_GPIO Bank_F 4, TEGRA_GPIO Bank_M 5, TEGRA_GPIO Bank_P 0,
     TEGRA_GPIO Bank_P 2, TEGRA_GPIO Bank_P 1, TEGRA_GPIO Bank_O 3, TEGRA_GPIO Bank_R 5,
     - EINVAL, TEGRA_GPIO Bank_S 3, TEGRA_GPIO Bank_S 4, TEGRA_GPIO Bank_S 1,
     TEGRA_GPIO Bank_F 2, TEGRA_GPIO Bank_FF 0, TEGRA_GPIO Bank_FF 4, TEGRA_GPIO Bank_C 6,
     TEGRA_GPIO Bank_W 2, TEGRA_GPIO Bank_W 5, TEGRA_GPIO Bank_W 1, TEGRA_GPIO Bank_V 0,
     TEGRA_GPIO Bank_V 1, TEGRA_GPIO Bank_V 2, TEGRA_GPIO Bank_V 3, TEGRA_GPIO Bank_V 4,
     TEGRA_GPIO Bank_V 5, TEGRA_GPIO Bank_EE 0, TEGRA_GPIO Bank_Z 1, TEGRA_GPIO Bank_Z 3,
     TEGRA_GPIO Bank_AA 0, TEGRA_GPIO Bank_AA 1, TEGRA_GPIO Bank_AA 2, TEGRA_GPIO Bank_AA 3,
     TEGRA_GPIO Bank_AA 4, TEGRA_GPIO Bank_AA 5, TEGRA_GPIO Bank_AA 6, TEGRA_GPIO Bank_AA 7,
     TEGRA_GPIO Bank_X 3, TEGRA_GPIO Bank_X 7, TEGRA_GPIO Bank_Y 0, TEGRA_GPIO Bank_Y 1,
     TEGRA_GPIO Bank_Y 2, TEGRA_GPIO Bank_Y 5, TEGRA_GPIO Bank_Y 6, TEGRA_GPIO Bank_L 1,
     TEGRA_GPIO Bank_L 3, TEGRA_GPIO Bank_L 4, TEGRA_GPIO Bank_L 5, TEGRA_GPIO Bank_I 4,
     TEGRA_GPIO Bank_I 6, TEGRA_GPIO Bank_Z 0, TEGRA_GPIO Bank_Z 2, TEGRA_GPIO Bank_FF 1,
     TEGRA_GPIO Bank_FF 2, TEGRA_GPIO Bank_FF 3, TEGRA_GPIO Bank_H 3, TEGRA_GPIO Bank_P 5,
     - EINVAL, - EINVAL, - EINVAL, - EINVAL, - EINVAL, - EINVAL, - EINVAL, - EINVAL,
     - EINVAL, - EINVAL, - EINVAL, - EINVAL, - EINVAL, - EINVAL, - EINVAL, - EINVAL,
     - EINVAL, - EINVAL, - EINVAL, - EINVAL, - EINVAL, - EINVAL, - EINVAL, - EINVAL]"

text \<open>The scan of \<open>tegra186_gpio_to_wake\<close>: the index of the first entry equal to
  \<open>gpio\<close>, counting from \<open>i\<close>.\<close>

fun wake_scan :: "int list \<Rightarrow> int \<Rightarrow> int \<Rightarrow> int option" where
  "wake_scan [] i gpio = None"
| "wake_scan (w # ws) i gpio = (if w = gpio then Some i else wake_scan ws (i + 1) gpio)"

definition tegra186_gpio_to_wake :: "int \<Rightarrow> hw \<Rightarrow> int \<times> hw" where
  "tegra186_gpio_to_wake gpio s =
     (case wake_scan tegra186_gpio_wakes 0 gpio of
        Some i \<Rightarrow> (i, emit (Log (WakeFound i gpio)) s)
      | None \<Rightarrow> (- EINVAL, s))"

subsection \<open>Line control\<close>

text \<open>The functions that take \<open>int gpio\<close> hand it to the \<open>u32\<close> parameter of the
  register accessors; \<open>word_of_int\<close> is that conversion, \<open>sint\<close> the one from an unsigned
  offset to \<open>int\<close>. The output parameters of \<open>tegra_gpio_is_enabled\<close> are the pair
  \<open>(is_gpio, is_input)\<close>: what the two pointed-to integers hold before and after.\<close>

definition tegra_gpio_is_enabled :: "int \<Rightarrow> int \<times> int \<Rightarrow> hw \<Rightarrow> int \<times> (int \<times> int) \<times> hw" where
  "tegra_gpio_is_enabled gpio outs s =
     (let (accessible, s1) = is_gpio_accessible (word_of_int gpio) s
      in if accessible then
           (let (val, s2) = tegra_gpio_readl (word_of_int gpio) GPIO_ENB_CONFIG_REG s1;
                is_gpio = sint (val AND 0x1);
                (ctrl, s3) = tegra_gpio_readl (word_of_int gpio) GPIO_OUT_CTRL_REG s2;
                is_input = sint ctrl
            in (0, (is_gpio, is_input), s3))
         else (0, outs, s1))"

definition tegra_gpio_enable :: "int \<Rightarrow> hw \<Rightarrow> hw" where
  "tegra_gpio_enable gpio s = tegra_gpio_update (word_of_int gpio) GPIO_ENB_CONFIG_REG 0x1 0x1 s"

definition tegra_gpio_disable :: "int \<Rightarrow> hw \<Rightarrow> hw" where
  "tegra_gpio_disable gpio s = tegra_gpio_update (word_of_int gpio) GPIO_ENB_CONFIG_REG 0x1 0x0 s"

text \<open>\<open>tegra_gpio_chip.base\<close> is 0.\<close>

definition chip_base :: u32 where "chip_base = 0"

definition tegra_gpio_request :: "collaborators \<Rightarrow> u32 \<Rightarrow> hw \<Rightarrow> int \<times> hw" where
  "tegra_gpio_request env offset s =
     (let (accessible, s1) = is_gpio_accessible offset s
      in if accessible
         then (pinctrl_request_gpio env (chip_base + offset),
               emit (PinctrlRequest (chip_base + offset)) s1)
         else (- EBUSY, s1))"

definition tegra_gpio_free :: "u32 \<Rightarrow> hw \<Rightarrow> hw" where
  "tegra_gpio_free offset s =
     tegra_gpio_disable (sint offset) (emit (PinctrlFree (chip_base + offset)) s)"

definition tegra_gpio_set :: "u32 \<Rightarrow> int \<Rightarrow> hw \<Rightarrow> hw" where
  "tegra_gpio_set offset value s =
     (let val = (if value \<noteq> 0 then 0x1 else 0x0);
          s1 = tegra_gpio_writel val offset GPIO_OUT_VAL_REG s
      in tegra_gpio_writel 0 offset GPIO_OUT_CTRL_REG s1)"

definition tegra_gpio_get :: "u32 \<Rightarrow> hw \<Rightarrow> int \<times> hw" where
  "tegra_gpio_get offset s =
     (let (val, s1) = tegra_gpio_readl offset GPIO_ENB_CONFIG_REG s
      in if val AND GPIO_INOUT_BIT \<noteq> 0
         then (let (v, s2) = tegra_gpio_readl offset GPIO_OUT_VAL_REG s1
               in (sint (v AND 0x1), s2))
         else (let (v, s2) = tegra_gpio_readl offset GPIO_INPUT_REG s1
               in (sint (v AND 0x1), s2)))"

definition set_gpio_direction_mode :: "u32 \<Rightarrow> bool \<Rightarrow> hw \<Rightarrow> hw" where
  "set_gpio_direction_mode offset mode s =
     (let (val, s1) = tegra_gpio_readl offset GPIO_ENB_CONFIG_REG s;
          val = (if mode then val OR GPIO_INOUT_BIT else val AND NOT GPIO_INOUT_BIT)
      in tegra_gpio_writel val offset GPIO_ENB_CONFIG_REG s1)"

definition tegra_gpio_direction_input :: "collaborators \<Rightarrow> u32 \<Rightarrow> hw \<Rightarrow> int \<times> hw" where
  "tegra_gpio_direction_input env offset s =
     (let s1 = set_gpio_direction_mode offset False s;
          s2 = tegra_gpio_enable (sint offset) s1;
          ret = pinctrl_gpio_direction_input env (chip_base + offset);
          s3 = emit (PinctrlDirectionInput (chip_base + offset)) s2;
          s4 = (if ret < 0 then emit (Log (PinctrlInputFailed ret)) s3 else s3)
      in (0, s4))"

definition tegra_gpio_direction_output :: "collaborators \<Rightarrow> u32 \<Rightarrow> int \<Rightarrow> hw \<Rightarrow> int \<times> hw" where
  "tegra_gpio_direction_output env offset value s =
     (let s0 = tegra_gpio_set offset value s;
          s1 = set_gpio_direction_mode offset True s0;
          s2 = tegra_gpio_enable (sint offset) s1;
          ret = pinctrl_gpio_direction_output env (chip_base + offset);
          s3 = emit (PinctrlDirectionOutput (chip_base + offset)) s2;
          s4 = (if ret < 0 then emit (Log (PinctrlOutputFailed ret)) s3 else s3)
      in (0, s4))"

text \<open>The kernel's \<open>DIV_ROUND_UP(n, d)\<close> is \<open>((n) + (d) - 1) / (d)\<close>, here in unsigned
  32-bit arithmetic.\<close>

definition DIV_ROUND_UP :: "u32 \<Rightarrow> u32 \<Rightarrow> u32" where
  "DIV_ROUND_UP n d = (n + d - 1) div d"

definition tegra_gpio_set_debounce :: "u32 \<Rightarrow> u32 \<Rightarrow> hw \<Rightarrow> int \<times> hw" where
  "tegra_gpio_set_debounce offset debounce s =
     (let dbc_ms = DIV_ROUND_UP debounce 1000;
          s1 = tegra_gpio_update offset GPIO_ENB_CONFIG_REG 0x1 0x1 s;
          s2 = tegra_gpio_update offset GPIO_DEB_FUNC_BIT 0x5 0x1 s1;
          s3 = tegra_gpio_writel dbc_ms offset GPIO_DBC_THRES_REG s2
      in (0, s3))"

subsection \<open>Interrupt chip\<close>

text \<open>\<open>struct irq_data\<close>: the Linux interrupt number and the hardware number (an
  \<open>unsigned long\<close>), which the driver stores in an \<open>int gpio\<close>.\<close>

record irq_data =
  irq :: u32
  hwirq :: "64 word"

definition hwirq_gpio :: "irq_data \<Rightarrow> int" where
  "hwirq_gpio d = sint (ucast (hwirq d) :: u32)"

definition tegra_gpio_irq_ack :: "irq_data \<Rightarrow> hw \<Rightarrow> hw" where
  "tegra_gpio_irq_ack d s =
     (let gpio = hwirq_gpio d
      in tegra_gpio_writel 1 (word_of_int gpio) GPIO_INT_CLEAR_REG s)"

definition tegra_gpio_irq_mask :: "irq_data \<Rightarrow> hw \<Rightarrow> hw" where
  "tegra_gpio_irq_mask d s =
     (let gpio = hwirq_gpio d
      in tegra_gpio_update (word_of_int gpio) GPIO_ENB_CONFIG_REG GPIO_INT_FUNC_BIT 0 s)"

definition tegra_gpio_irq_unmask :: "irq_data \<Rightarrow> hw \<Rightarrow> hw" where
  "tegra_gpio_irq_unmask d s =
     (let gpio = hwirq_gpio d
      in tegra_gpio_update (word_of_int gpio) GPIO_ENB_CONFIG_REG GPIO_INT_FUNC_BIT
           GPIO_INT_FUNC_BIT s)"

text \<open>The \<open>switch\<close> of \<open>tegra_gpio_irq_set_type\<close>: the pair \<open>(trg_type, lvl_type)\<close>, both
  initialised to 0, or \<open>None\<close> for the \<open>default\<close> branch.\<close>

definition irq_type_switch :: "u32 \<Rightarrow> (u32 \<times> u32) option" where
  "irq_type_switch type =
     (let sense = type AND IRQ_TYPE_SENSE_MASK
      in if sense = IRQ_TYPE_EDGE_RISING
           then Some (TRIGGER_LEVEL_HIGH, GPIO_INT_LVL_SINGLE_EDGE_TRIGGER)
         else if sense = IRQ_TYPE_EDGE_FALLING
           then Some (TRIGGER_LEVEL_LOW, GPIO_INT_LVL_SINGLE_EDGE_TRIGGER)
         else if sense = IRQ_TYPE_EDGE_BOTH
           then Some (0, GPIO_INT_LVL_BOTH_EDGE_TRIGGER)
         else if sense = IRQ_TYPE_LEVEL_HIGH
           then Some (TRIGGER_LEVEL_HIGH, GPIO_INT_LVL_LEVEL_TRIGGER)
         else if sense = IRQ_TYPE_LEVEL_LOW
           then Some (TRIGGER_LEVEL_LOW, GPIO_INT_LVL_LEVEL_TRIGGER)
         else None)"

definition tegra_gpio_irq_set_type :: "irq_data \<Rightarrow> u32 \<Rightarrow> hw \<Rightarrow> int \<times> hw" where
  "tegra_gpio_irq_set_type d type s =
     (let gpio = hwirq_gpio d;
          (wake, s0) = tegra186_gpio_to_wake (hwirq_gpio d) s
      in case irq_type_switch type of
           None \<Rightarrow> (- EINVAL, s0)
         | Some (trg_type, lvl_type) \<Rightarrow>
            (let trg_type = push_bit 4 trg_type;
                 lvl_type = push_bit 2 lvl_type;
                 (val, s1) = tegra_gpio_readl (word_of_int gpio) GPIO_ENB_CONFIG_REG s0;
                 val = val AND NOT (push_bit GPIO_TRG_TYPE_BIT_OFFSET 0x3 OR GPIO_TRG_LVL_BIT);
                 val = val OR (trg_type OR lvl_type);
                 s2 = tegra_gpio_writel val (word_of_int gpio) GPIO_ENB_CONFIG_REG s1;
                 s3 = tegra_gpio_enable gpio s2;
                 s4 = (if type AND (IRQ_TYPE_LEVEL_LOW OR IRQ_TYPE_LEVEL_HIGH) \<noteq> 0
                         then emit (SetHandler handle_level_irq) s3
                       else if type AND (IRQ_TYPE_EDGE_FALLING OR IRQ_TYPE_EDGE_RISING) \<noteq> 0
                         then emit (SetHandler handle_edge_irq) s3
                       else s3);
                 s5 = (if wake \<ge> 0 then emit (PmSetWakeType wake type) s4 else s4)
             in (0, s5)))"

definition tegra_gpio_irq_set_wake :: "collaborators \<Rightarrow> irq_data \<Rightarrow> u32 \<Rightarrow> hw \<Rightarrow> int \<times> hw" where
  "tegra_gpio_irq_set_wake env d enable s =
     (let (wake, s0) = tegra186_gpio_to_wake (hwirq_gpio d) s
      in if wake < 0 then (wake, s0)
         else (let ret = tegra_pm_irq_set_wake env wake enable;
                   s1 = emit (PmSetWake wake enable) s0;
                   s2 = (if ret \<noteq> 0 then emit (Log (WakeFailed enable ret)) s1 else s1)
               in (ret, s2)))"

subsection \<open>Demultiplexer\<close>

text \<open>
  The first two loops of \<open>tegra_gpio_irq_handler_desc\<close> fill \<open>port_map\<close>. A write
  \<open>port_map[cont_index]\<close> with \<open>cont_index\<close> outside the array (port DD, whose controller
  and index are -1) has no meaning in C; it happens only for the controller number -1,
  which the probe never assigns, and the model leaves the map as it is there.
\<close>

definition port_map_step :: "int \<Rightarrow> int list \<Rightarrow> nat \<Rightarrow> int list" where
  "port_map_step controller port_map i =
     (if cont_id (tegra_gpio_cinfo ! i) = controller
      then (let ci = cont_index (tegra_gpio_cinfo ! i)
            in if 0 \<le> ci \<and> ci < int MAX_GPIO_PORTS then port_map[nat ci := int i]
               else port_map)
      else port_map)"

definition build_port_map :: "int \<Rightarrow> int list" where
  "build_port_map controller =
     foldl (port_map_step controller) (replicate MAX_GPIO_PORTS (- 1))
       [0 ..< length tegra_gpio_cinfo]"

text \<open>\<open>generic_handle_irq(gpio_to_irq(gpio))\<close>: the line of the pin is dispatched and
  its handler runs.\<close>

definition dispatch :: "collaborators \<Rightarrow> u32 \<Rightarrow> hw \<Rightarrow> hw" where
  "dispatch env gpio s =
     (let s1 = emit (Dispatch gpio) s
      in s1\<lparr>regs := generic_handle_irq env gpio (regs s1)\<rparr>)"

text \<open>\<open>for_each_set_bit(pin, &val, 8)\<close> visits the set bits among the lowest 8 in
  ascending order.\<close>

definition for_each_set_bit :: "u32 \<Rightarrow> (nat \<Rightarrow> hw \<Rightarrow> hw) \<Rightarrow> hw \<Rightarrow> hw" where
  "for_each_set_bit val body s =
     fold (\<lambda>pin s. if bit val pin then body pin s else s) [0 ..< 8] s"

definition irq_scan_port :: "collaborators \<Rightarrow> int list \<Rightarrow> nat \<Rightarrow> hw \<Rightarrow> hw" where
  "irq_scan_port env port_map i s =
     (let port = port_map ! i
      in if port = - 1 then s
         else (let rindex = reg_index (cinfo port);
                   addr = reg_offset (cinfo port);
                   (val, s1) = raw_readl rindex
                      (uint addr + GPIO_INT_STATUS_OFFSET + GPIO_STATUS_G1) s;
                   gpio = (word_of_int (port * 8) :: u32)
               in for_each_set_bit val (\<lambda>pin. dispatch env (gpio + word_of_nat pin)) s1))"

definition tegra_gpio_irq_handler_desc :: "collaborators \<Rightarrow> int \<Rightarrow> hw \<Rightarrow> hw" where
  "tegra_gpio_irq_handler_desc env controller s =
     (let port_map = build_port_map controller;
          s1 = emit ChainedEnter s;
          s2 = fold (irq_scan_port env port_map) [0 ..< MAX_GPIO_PORTS] s1
      in emit ChainedExit s2)"

subsection \<open>The address translator of the specification\<close>

text \<open>
  The two address formulas as the specification words them, to be compared with the
  addresses the driver computes: \<open>translate\<close> gives the window and the address
  \<open>general_block_offset + pin_in_port * PIN_STRIDE + register_offset\<close> with the stride
  0x20, \<open>translate_security\<close> the window and the address
  \<open>security_block_offset + pin_in_port * SECURITY_STRIDE + SECURITY_REGISTER_OFFSET\<close>
  with the stride 0x08 and the register offset 0x04; the pin in the port is the
  identifier modulo 8, the port the identifier divided by 8.
\<close>

definition translate :: "u32 \<Rightarrow> u32 \<Rightarrow> int \<times> int" where
  "translate pin reg =
     (let port = tegra_gpio_cinfo ! (unat pin div 8)
      in (reg_index port, uint (reg_offset port) + (uint pin mod 8) * 0x20 + uint reg))"

definition translate_security :: "u32 \<Rightarrow> int \<times> int" where
  "translate_security pin =
     (let port = tegra_gpio_cinfo ! (unat pin div 8)
      in (reg_index port, scr_offset port + (uint pin mod 8) * 0x08 + 0x04))"

subsection \<open>The dispatch order of the specification\<close>

text \<open>
  The order of dispatch as the specification words it, to be compared with what the
  handler does. The ports of a controller are taken slot by slot in ascending order
  (\<open>ports_of_slot\<close>: the ports of the topology table with that controller and that
  index). For each port the pending bitmap is read once, and each set bit of its lowest
  8 is dispatched in ascending order, bit \<open>b\<close> of port \<open>p\<close> being pin \<open>p * 8 + b\<close>
  (\<open>pending_pins\<close>). A dispatch runs the handler of the pin, which may change
  registers, so the bitmap of a later port is read from the registers as the handlers
  of the earlier pins left them (\<open>demux_port\<close> carries the pins dispatched so far and
  the registers). The pending bitmap of a port is the register at offset
  \<open>GPIO_INT_STATUS_OFFSET + GPIO_STATUS_G1\<close> of the port's general block.
\<close>

definition MAX_GPIO_CONTROLLERS :: int where "MAX_GPIO_CONTROLLERS = 7"

definition int_status_reg :: "nat \<Rightarrow> int \<times> int" where
  "int_status_reg port =
     (reg_index (tegra_gpio_cinfo ! port),
      uint (reg_offset (tegra_gpio_cinfo ! port)) + 0x100 + 0x04)"

definition ports_of_slot :: "int \<Rightarrow> nat \<Rightarrow> nat list" where
  "ports_of_slot controller slot =
     filter (\<lambda>port. cont_id (tegra_gpio_cinfo ! port) = controller
                \<and> cont_index (tegra_gpio_cinfo ! port) = int slot)
       [0 ..< MAX_PORTS]"

definition pending_pins :: "(int \<times> int \<Rightarrow> u32) \<Rightarrow> nat \<Rightarrow> u32 list" where
  "pending_pins r port =
     map (\<lambda>b. of_nat (port * 8 + b)) (filter (bit (r (int_status_reg port))) [0 ..< 8])"

definition demux_port ::
  "collaborators \<Rightarrow> nat \<Rightarrow> u32 list \<times> (int \<times> int \<Rightarrow> u32) \<Rightarrow> u32 list \<times> (int \<times> int \<Rightarrow> u32)" where
  "demux_port env port acc =
     (let pins = pending_pins (snd acc) port
      in (fst acc @ pins, fold (generic_handle_irq env) pins (snd acc)))"

definition demux_order ::
  "collaborators \<Rightarrow> int \<Rightarrow> (int \<times> int \<Rightarrow> u32) \<Rightarrow> u32 list \<times> (int \<times> int \<Rightarrow> u32)" where
  "demux_order env controller r =
     fold (demux_port env) (concat (map (ports_of_slot controller) [0 ..< MAX_GPIO_PORTS]))
       ([], r)"

text \<open>The order of the claim on pins: \<open>g\<close> comes before \<open>h\<close> when its port has the
  lower index in the controller, or the same index and \<open>g\<close> is the lower bit of the
  bitmap.\<close>

definition slot_of_pin :: "u32 \<Rightarrow> int" where
  "slot_of_pin g = cont_index (tegra_gpio_cinfo ! (unat g div 8))"

definition dispatch_before :: "u32 \<Rightarrow> u32 \<Rightarrow> bool" where
  "dispatch_before g h =
     (slot_of_pin g < slot_of_pin h
      \<or> (slot_of_pin g = slot_of_pin h \<and> unat g mod 8 < unat h mod 8))"

text \<open>The pins dispatched in a trace, in the order of their dispatch.\<close>

fun dispatched :: "event list \<Rightarrow> u32 list" where
  "dispatched [] = []"
| "dispatched (Dispatch g # es) = g # dispatched es"
| "dispatched (e # es) = dispatched es"

subsection \<open>Concrete states and collaborators\<close>

text \<open>A state with every register 0 and an empty trace, collaborators that accept
  every request, and collaborators that reject every request with \<open>-EINVAL\<close>; the
  concrete evaluations below run on them.\<close>

definition hw_zero :: hw where
  "hw_zero = \<lparr>regs = (\<lambda>a. 0), trace = []\<rparr>"

definition accepting :: collaborators where
  "accepting =
     \<lparr>pinctrl_request_gpio = (\<lambda>g. 0),
      pinctrl_gpio_direction_input = (\<lambda>g. 0),
      pinctrl_gpio_direction_output = (\<lambda>g. 0),
      tegra_pm_irq_set_wake = (\<lambda>w e. 0),
      generic_handle_irq = (\<lambda>g r. r)\<rparr>"

definition rejecting :: collaborators where
  "rejecting =
     \<lparr>pinctrl_request_gpio = (\<lambda>g. - EINVAL),
      pinctrl_gpio_direction_input = (\<lambda>g. - EINVAL),
      pinctrl_gpio_direction_output = (\<lambda>g. - EINVAL),
      tegra_pm_irq_set_wake = (\<lambda>w e. - EINVAL),
      generic_handle_irq = (\<lambda>g r. r)\<rparr>"

text \<open>Two sets of collaborators whose interrupt handlers change the pending bitmaps:
  one whose handler acknowledges its pin by clearing the pin's pending bit, and one
  whose handler of pin 16 raises bit 0 of port 3.\<close>

definition acking :: collaborators where
  "acking =
     \<lparr>pinctrl_request_gpio = (\<lambda>g. 0),
      pinctrl_gpio_direction_input = (\<lambda>g. 0),
      pinctrl_gpio_direction_output = (\<lambda>g. 0),
      tegra_pm_irq_set_wake = (\<lambda>w e. 0),
      generic_handle_irq = (\<lambda>g r. r(int_status_reg (unat g div 8) :=
         r (int_status_reg (unat g div 8)) AND NOT (push_bit (unat g mod 8) 1)))\<rparr>"

definition raising :: collaborators where
  "raising =
     \<lparr>pinctrl_request_gpio = (\<lambda>g. 0),
      pinctrl_gpio_direction_input = (\<lambda>g. 0),
      pinctrl_gpio_direction_output = (\<lambda>g. 0),
      tegra_pm_irq_set_wake = (\<lambda>w e. 0),
      generic_handle_irq = (\<lambda>g r. if g = 16 then r(int_status_reg 3 := 1) else r)\<rparr>"

section \<open>Properties\<close>

subsection \<open>Auxiliary facts\<close>

lemmas gpio_consts = BIT_def GPIO_ENB_CONFIG_REG_def GPIO_ENB_BIT_def GPIO_INOUT_BIT_def
  GPIO_TRG_TYPE_BIT_OFFSET_def GPIO_TRG_LVL_BIT_def GPIO_DEB_FUNC_BIT_def GPIO_INT_FUNC_BIT_def
  GPIO_DBC_THRES_REG_def GPIO_INPUT_REG_def GPIO_OUT_CTRL_REG_def GPIO_OUT_VAL_REG_def
  GPIO_INT_CLEAR_REG_def GPIO_REG_DIFF_def GPIO_SCR_REG_def GPIO_SCR_DIFF_def
  GPIO_SCR_SEC_WEN_def GPIO_SCR_SEC_REN_def GPIO_SCR_SEC_G1R_def GPIO_SCR_SEC_G1W_def
  GPIO_INT_STATUS_OFFSET_def GPIO_STATUS_G1_def GPIO_FULL_ACCESS_def

lemmas cinfo_defs = tegra_gpio_cinfo_def TEGRA_GPIO_PORT_INFO_def TEGRA_AON_GPIO_PORT_INFO_def

lemma GPIO_PORT_div: "GPIO_PORT g = uint g div 8"
  by (simp add: GPIO_PORT_def drop_bit_eq_div uint_div)

lemma GPIO_PIN_mod: "GPIO_PIN g = uint g mod 8"
proof -
  have "g AND 7 = take_bit 3 g" by (simp add: take_bit_eq_mask mask_eq_exp_minus_1)
  then show ?thesis
    by (simp add: GPIO_PIN_def take_bit_eq_mod uint_mod)
qed

lemma GPIO_PORT_range:
  assumes "g < 256"
  shows "0 \<le> GPIO_PORT g" and "GPIO_PORT g < 32" and "nat (GPIO_PORT g) < length tegra_gpio_cinfo"
proof -
  from assms have "uint g < 256" by (simp add: word_less_def)
  moreover have "0 \<le> uint g" by simp
  ultimately show "0 \<le> GPIO_PORT g" "GPIO_PORT g < 32" unfolding GPIO_PORT_div by arith+
  then show "nat (GPIO_PORT g) < length tegra_gpio_cinfo" by (simp add: tegra_gpio_cinfo_def)
qed

lemma full_access_bits:
  "(v AND GPIO_FULL_ACCESS = GPIO_FULL_ACCESS) = (bit v 28 \<and> bit v 27 \<and> bit v 9 \<and> bit v 1)"
proof
  assume a: "v AND GPIO_FULL_ACCESS = GPIO_FULL_ACCESS"
  have "bit (v AND GPIO_FULL_ACCESS) 28 = bit GPIO_FULL_ACCESS 28"
       "bit (v AND GPIO_FULL_ACCESS) 27 = bit GPIO_FULL_ACCESS 27"
       "bit (v AND GPIO_FULL_ACCESS) 9 = bit GPIO_FULL_ACCESS 9"
       "bit (v AND GPIO_FULL_ACCESS) 1 = bit GPIO_FULL_ACCESS 1"
    by (simp_all only: a)
  then show "bit v 28 \<and> bit v 27 \<and> bit v 9 \<and> bit v 1"
    by (simp add: gpio_consts bit_simps)
next
  assume b: "bit v 28 \<and> bit v 27 \<and> bit v 9 \<and> bit v 1"
  have c: "GPIO_FULL_ACCESS = push_bit 28 1 OR push_bit 27 1 OR push_bit 9 1 OR push_bit 1 1"
    by (simp add: gpio_consts)
  show "v AND GPIO_FULL_ACCESS = GPIO_FULL_ACCESS"
    unfolding c
  proof (rule bit_eqI)
    fix n :: nat
    have "n - 28 = 0 \<Longrightarrow> 28 \<le> n \<Longrightarrow> n = 28" "n - 27 = 0 \<Longrightarrow> 27 \<le> n \<Longrightarrow> n = 27"
      "n - 9 = 0 \<Longrightarrow> 9 \<le> n \<Longrightarrow> n = 9" "n - 1 = 0 \<Longrightarrow> 1 \<le> n \<Longrightarrow> n = 1" by arith+
    with b show "bit (v AND (push_bit 28 1 OR push_bit 27 1 OR push_bit 9 1 OR push_bit 1 1)) n
        = bit (push_bit 28 1 OR push_bit 27 1 OR push_bit 9 1 OR push_bit 1 1 :: u32) n"
      by (auto simp only: bit_and_iff bit_or_iff bit_push_bit_iff bit_1_iff)
  qed
qed

lemma cinfo_scr_table:
  "list_all (\<lambda>p. (cont_id p < 0 \<longleftrightarrow> cont_id p = - 1) \<and>
     (0 \<le> cont_id p \<longrightarrow> uint (word_of_int (scr_offset p) :: u32) = scr_offset p))
   tegra_gpio_cinfo"
  by (simp add: cinfo_defs)

lemma cinfo_scr:
  assumes "g < 256"
  shows "(cont_id (cinfo (GPIO_PORT g)) < 0) = (cont_id (cinfo (GPIO_PORT g)) = - 1)"
    and "0 \<le> cont_id (cinfo (GPIO_PORT g)) \<Longrightarrow>
      uint (word_of_int (scr_offset (cinfo (GPIO_PORT g))) :: u32) = scr_offset (cinfo (GPIO_PORT g))"
  using cinfo_scr_table GPIO_PORT_range(3) [OF assms]
  by (simp_all add: list_all_length cinfo_def)

lemma cinfo_reg_table:
  "list_all (\<lambda>p. uint (reg_offset p) < 0x20000) tegra_gpio_cinfo"
  by (simp add: cinfo_defs)

lemma cinfo_reg:
  assumes "g < 256"
  shows "uint (reg_offset (cinfo (GPIO_PORT g))) < 0x20000"
  using cinfo_reg_table GPIO_PORT_range(3) [OF assms]
  by (simp add: list_all_length cinfo_def)

lemma GPIO_PIN_range: "0 \<le> GPIO_PIN g" "GPIO_PIN g < 8"
  by (simp_all add: GPIO_PIN_mod)

lemma uint_add_nowrap:
  fixes a b :: u32
  assumes "uint a + uint b < 2 ^ 32"
  shows "uint (a + b) = uint a + uint b"
  using assms uint_add_lem [of a b] by simp

lemma reg_addr:
  assumes "g < 256" and "uint reg < 2 ^ 31"
  shows "uint (reg_offset (cinfo (GPIO_PORT g)) + (word_of_int (GPIO_REG_DIFF * GPIO_PIN g) + reg)) =
    uint (reg_offset (cinfo (GPIO_PORT g))) + GPIO_PIN g * 0x20 + uint reg"
proof -
  define k :: u32 where "k = word_of_int (GPIO_REG_DIFF * GPIO_PIN g)"
  define a where "a = reg_offset (cinfo (GPIO_PORT g))"
  have p: "0 \<le> GPIO_PIN g" "GPIO_PIN g < 8" by (rule GPIO_PIN_range)+
  have b: "uint a < 0x20000" unfolding a_def by (rule cinfo_reg [OF assms(1)])
  have "uint k = (GPIO_REG_DIFF * GPIO_PIN g) mod 2 ^ 32"
    unfolding k_def uint_word_of_int_eq take_bit_eq_mod by simp
  also have "\<dots> = GPIO_PIN g * 0x20" using p by (simp add: GPIO_REG_DIFF_def)
  finally have 1: "uint k = GPIO_PIN g * 0x20" .
  have 2: "uint (k + reg) = GPIO_PIN g * 0x20 + uint reg"
    using p assms(2) 1 by (simp add: uint_add_nowrap)
  have "uint (a + (k + reg)) = uint a + GPIO_PIN g * 0x20 + uint reg"
    using p assms(2) b 2 by (simp add: uint_add_nowrap)
  then show ?thesis by (simp only: k_def a_def)
qed

lemma cinfo_port: "cinfo (GPIO_PORT g) = tegra_gpio_cinfo ! (unat g div 8)"
  by (simp add: cinfo_def GPIO_PORT_div nat_div_distrib)

lemma translate_eq:
  "translate g reg = (reg_index (cinfo (GPIO_PORT g)),
     uint (reg_offset (cinfo (GPIO_PORT g))) + GPIO_PIN g * 0x20 + uint reg)"
  by (simp add: translate_def Let_def cinfo_port GPIO_PIN_mod)

lemma translate_security_eq:
  "translate_security g = (reg_index (cinfo (GPIO_PORT g)),
     scr_offset (cinfo (GPIO_PORT g)) + GPIO_PIN g * 0x08 + 0x04)"
  by (simp add: translate_security_def Let_def cinfo_port GPIO_PIN_mod)

lemma readl_translate:
  assumes "g < 256" and "uint reg < 2 ^ 31"
  shows "tegra_gpio_readl g reg s =
    (regs s (translate g reg), emit (RegRead (fst (translate g reg)) (snd (translate g reg))) s)"
  by (simp only: tegra_gpio_readl_def Let_def reg_addr [OF assms]) (simp add: raw_readl_def translate_eq)

lemma writel_translate:
  assumes "g < 256" and "uint reg < 2 ^ 31"
  shows "tegra_gpio_writel val g reg s =
    emit (RegWrite (fst (translate g reg)) (snd (translate g reg)) val)
      (s\<lparr>regs := (regs s)(translate g reg := val)\<rparr>)"
  by (simp only: tegra_gpio_writel_def Let_def reg_addr [OF assms]) (simp add: raw_writel_def translate_eq)

lemma update_translate:
  assumes "g < 256" and "uint reg < 2 ^ 31"
  shows "tegra_gpio_update g reg msk val s =
    (let new = (regs s (translate g reg) AND NOT msk) OR (val AND msk)
     in emit (RegWrite (fst (translate g reg)) (snd (translate g reg)) new)
         (emit (RegRead (fst (translate g reg)) (snd (translate g reg))) s
            \<lparr>regs := (regs s)(translate g reg := new)\<rparr>))"
  by (simp only: tegra_gpio_update_def Let_def reg_addr [OF assms])
    (simp add: raw_writel_def raw_readl_def translate_eq emit_def)

lemma is_gpio_accessible_translate:
  assumes "offset < 256"
  shows "is_gpio_accessible offset s =
    (if valid_pins (cinfo (GPIO_PORT offset)) \<le> GPIO_PIN offset
        \<or> cont_id (cinfo (GPIO_PORT offset)) = - 1 then (False, s)
     else (let v = regs s (translate_security offset)
           in (bit v 28 \<and> bit v 27 \<and> bit v 9 \<and> bit v 1,
               emit (RegRead (fst (translate_security offset)) (snd (translate_security offset))) s)))"
proof (cases "cont_id (cinfo (GPIO_PORT offset)) < 0")
  case True
  with cinfo_scr(1) [OF assms] show ?thesis
    by (simp add: is_gpio_accessible_def Let_def)
next
  case False
  with cinfo_scr [OF assms]
  have "cont_id (cinfo (GPIO_PORT offset)) \<noteq> - 1"
    and "uint (word_of_int (scr_offset (cinfo (GPIO_PORT offset))) :: u32) =
      scr_offset (cinfo (GPIO_PORT offset))"
    by simp_all
  with False show ?thesis
    by (simp add: is_gpio_accessible_def Let_def raw_readl_def full_access_bits
        GPIO_SCR_DIFF_def GPIO_SCR_REG_def translate_security_eq)
qed

lemma emit_simps: "regs (emit e s) = regs s" "trace (emit e s) = trace s @ [e]"
  by (simp_all add: emit_def)

lemma chip_base_add: "chip_base + offset = offset"
  by (simp add: chip_base_def)

lemma and_bit1: "(v AND GPIO_INOUT_BIT \<noteq> 0) = bit (v :: u32) 1"
proof -
  have "GPIO_INOUT_BIT = 2 ^ 1" by (simp add: gpio_consts)
  then show ?thesis using and_exp_eq_0_iff_not_bit [of v 1] by simp
qed

lemma sint_and_1: "sint ((v :: u32) AND 1) = of_bool (bit v 0)"
  by (simp add: and_one_eq mod_2_eq_odd bit_0)

lemma word_of_int_range:
  assumes "0 \<le> gpio" and "gpio < 256"
  shows "(word_of_int gpio :: u32) < 256"
  using assms by (simp add: word_less_def uint_word_of_int_eq take_bit_eq_mod)

lemma reg_offsets_small:
  "uint GPIO_ENB_CONFIG_REG < 2 ^ 31" "uint GPIO_DBC_THRES_REG < 2 ^ 31"
  "uint GPIO_INPUT_REG < 2 ^ 31" "uint GPIO_OUT_CTRL_REG < 2 ^ 31"
  "uint GPIO_OUT_VAL_REG < 2 ^ 31" "uint GPIO_INT_CLEAR_REG < 2 ^ 31"
  "uint GPIO_DEB_FUNC_BIT < 2 ^ 31"
  by (simp_all add: gpio_consts)

lemmas readl_regs = readl_translate [OF _ reg_offsets_small(1)]
  readl_translate [OF _ reg_offsets_small(2)] readl_translate [OF _ reg_offsets_small(3)]
  readl_translate [OF _ reg_offsets_small(4)] readl_translate [OF _ reg_offsets_small(5)]
  readl_translate [OF _ reg_offsets_small(6)] readl_translate [OF _ reg_offsets_small(7)]

lemmas writel_regs = writel_translate [OF _ reg_offsets_small(1)]
  writel_translate [OF _ reg_offsets_small(2)] writel_translate [OF _ reg_offsets_small(3)]
  writel_translate [OF _ reg_offsets_small(4)] writel_translate [OF _ reg_offsets_small(5)]
  writel_translate [OF _ reg_offsets_small(6)] writel_translate [OF _ reg_offsets_small(7)]

lemmas update_regs = update_translate [OF _ reg_offsets_small(1)]
  update_translate [OF _ reg_offsets_small(2)] update_translate [OF _ reg_offsets_small(3)]
  update_translate [OF _ reg_offsets_small(4)] update_translate [OF _ reg_offsets_small(5)]
  update_translate [OF _ reg_offsets_small(6)] update_translate [OF _ reg_offsets_small(7)]

lemma is_gpio_accessible_regs: "regs (snd (is_gpio_accessible g s)) = regs s"
  by (simp add: is_gpio_accessible_def Let_def raw_readl_def emit_simps)

lemma translate_distinct:
  "(translate g r = translate g r') = (r = r')"
  by (auto simp add: translate_def Let_def word_uint_eq_iff)

lemma reg_distinct:
  "GPIO_OUT_VAL_REG \<noteq> GPIO_ENB_CONFIG_REG" "GPIO_OUT_CTRL_REG \<noteq> GPIO_ENB_CONFIG_REG"
  "GPIO_OUT_CTRL_REG \<noteq> GPIO_OUT_VAL_REG" "GPIO_INPUT_REG \<noteq> GPIO_OUT_VAL_REG"
  "GPIO_ENB_CONFIG_REG \<noteq> GPIO_OUT_VAL_REG" "GPIO_ENB_CONFIG_REG \<noteq> GPIO_OUT_CTRL_REG"
  "GPIO_OUT_VAL_REG \<noteq> GPIO_OUT_CTRL_REG" "GPIO_DBC_THRES_REG \<noteq> GPIO_ENB_CONFIG_REG"
  "GPIO_ENB_CONFIG_REG \<noteq> GPIO_DBC_THRES_REG"
  by (simp_all add: gpio_consts)

lemma enable_bits:
  "bit (((v :: u32) AND - 2) OR 1) n = (n = 0 \<or> bit v n)"
proof -
  have "(- 2 :: u32) = NOT 1" by simp
  then show ?thesis
    by (auto simp add: bit_simps bit_0 simp del: not_one_eq dest: bit_imp_le_length)
qed

lemma inout_bits:
  "bit ((v :: u32) OR GPIO_INOUT_BIT) n = (n = 1 \<or> bit v n)"
  "bit ((v :: u32) AND NOT GPIO_INOUT_BIT) n = (n \<noteq> 1 \<and> bit v n)"
  by (auto simp add: gpio_consts bit_simps dest: bit_imp_le_length)

lemmas wakes_defs = tegra186_gpio_wakes_def TEGRA_GPIO_def EINVAL_def

lemma hwirq_gpio_eq:
  assumes "hwirq d < 256"
  shows "hwirq_gpio d = uint (hwirq d)" and "0 \<le> hwirq_gpio d" and "hwirq_gpio d < 256"
    and "(word_of_int (hwirq_gpio d) :: u32) < 256"
proof -
  from assms have b: "uint (hwirq d) < 256" by (simp add: word_less_def)
  have "uint (ucast (hwirq d) :: u32) = take_bit 32 (uint (hwirq d))"
    by (simp add: unsigned_ucast_eq)
  also have "\<dots> = uint (hwirq d)" using b by (simp add: take_bit_eq_mod)
  finally have u: "uint (ucast (hwirq d) :: u32) = uint (hwirq d)" .
  have "sint (ucast (hwirq d) :: u32) = uint (ucast (hwirq d) :: u32)"
    using b u by (simp add: sint_uint signed_take_bit_eq_if_positive bit_iff_odd take_bit_eq_mod)
  with u show 1: "hwirq_gpio d = uint (hwirq d)" by (simp add: hwirq_gpio_def)
  with b show 2: "0 \<le> hwirq_gpio d" "hwirq_gpio d < 256" by simp_all
  then show "(word_of_int (hwirq_gpio d) :: u32) < 256" by (rule word_of_int_range)
qed

lemma wake_scan_None: "(wake_scan ws k g = None) = (g \<notin> set ws)"
  by (induction ws arbitrary: k) auto

lemma wake_scan_first:
  "i < length ws \<Longrightarrow> ws ! i = g \<Longrightarrow> (\<forall>j<i. ws ! j \<noteq> g) \<Longrightarrow>
   wake_scan ws k g = Some (k + int i)"
proof (induction ws arbitrary: i k)
  case Nil
  then show ?case by simp
next
  case (Cons w ws)
  show ?case
  proof (cases i)
    case 0
    with Cons.prems show ?thesis by simp
  next
    case (Suc i')
    with Cons.prems have "w \<noteq> g" by auto
    moreover from Suc Cons.prems have "wake_scan ws (k + 1) g = Some (k + 1 + int i')"
      by (intro Cons.IH) auto
    ultimately show ?thesis using Suc by simp
  qed
qed

lemma distinct_filter_nth:
  "distinct (filter P ws) \<Longrightarrow> i < length ws \<Longrightarrow> j < i \<Longrightarrow> P (ws ! i) \<Longrightarrow> ws ! j \<noteq> ws ! i"
proof (induction ws arbitrary: i j)
  case Nil
  then show ?case by simp
next
  case (Cons w ws)
  from Cons.prems obtain i' where i: "i = Suc i'" by (cases i) auto
  show ?case
  proof (cases j)
    case 0
    from Cons.prems i have "ws ! i' \<in> set (filter P ws)" by auto
    with Cons.prems(1) Cons.prems(4) i 0 show ?thesis by (auto split: if_splits)
  next
    case (Suc j')
    with Cons.prems i have "ws ! j' \<noteq> ws ! i'"
      by (intro Cons.IH) (auto split: if_splits)
    with i Suc show ?thesis by simp
  qed
qed

lemma wakes_distinct: "distinct (filter (\<lambda>w. 0 \<le> w) tegra186_gpio_wakes)"
  by (simp add: wakes_defs)

lemma to_wake_absent:
  "gpio \<notin> set tegra186_gpio_wakes \<Longrightarrow> tegra186_gpio_to_wake gpio s = (- EINVAL, s)"
  by (simp add: tegra186_gpio_to_wake_def wake_scan_None [THEN iffD2])

lemma to_wake_present:
  assumes "0 \<le> gpio" and "i < length tegra186_gpio_wakes" and "tegra186_gpio_wakes ! i = gpio"
  shows "tegra186_gpio_to_wake gpio s = (int i, emit (Log (WakeFound (int i) gpio)) s)"
proof -
  have "\<forall>j<i. tegra186_gpio_wakes ! j \<noteq> gpio"
    using distinct_filter_nth [OF wakes_distinct assms(2)] assms(1,3) by auto
  with assms have "wake_scan tegra186_gpio_wakes 0 gpio = Some (0 + int i)"
    by (intro wake_scan_first) auto
  then show ?thesis by (simp add: tegra186_gpio_to_wake_def)
qed

lemma kind_field_nat:
  fixes x :: nat
  shows "x mod 4 =
    (if odd (x div 2) then (if odd x then 3 else 2) else (if odd x then 1 else 0))"
  by presburger

lemma kind_field:
  "drop_bit 2 (v :: u32) AND 3 =
     (if bit v 3 then (if bit v 2 then 3 else 2) else (if bit v 2 then 1 else 0))"
proof -
  have m: "(3 :: u32) = mask 2" by (simp add: mask_eq_exp_minus_1)
  have b: "bit v 2 = odd (unat v div 4)" "bit v 3 = odd (unat v div 4 div 2)"
  proof -
    have "unat v div 4 div 2 = unat v div 8" by simp
    then show "bit v 2 = odd (unat v div 4)" "bit v 3 = odd (unat v div 4 div 2)"
      using bit_unsigned_iff [where ?'a = nat, of v 2] bit_unsigned_iff [where ?'a = nat, of v 3]
      by (simp_all add: bit_iff_odd)
  qed
  have "unat (drop_bit 2 v AND mask 2) = unat v div 4 mod 4"
    by (simp add: take_bit_eq_mod drop_bit_eq_div unat_div unat_mod flip: take_bit_eq_mask)
  then have "unat (drop_bit 2 v AND mask 2) =
     unat (if bit v 3 then (if bit v 2 then 3 else 2) else (if bit v 2 then 1 else 0) :: u32)"
    unfolding b by (simp only: kind_field_nat) simp
  then show ?thesis unfolding m by (simp only: word_unat_eq_iff)
qed

lemmas irq_consts = IRQ_TYPE_EDGE_RISING_def IRQ_TYPE_EDGE_FALLING_def IRQ_TYPE_EDGE_BOTH_def
  IRQ_TYPE_LEVEL_HIGH_def IRQ_TYPE_LEVEL_LOW_def IRQ_TYPE_SENSE_MASK_def
  GPIO_INT_LVL_LEVEL_TRIGGER_def GPIO_INT_LVL_SINGLE_EDGE_TRIGGER_def
  GPIO_INT_LVL_BOTH_EDGE_TRIGGER_def TRIGGER_LEVEL_LOW_def TRIGGER_LEVEL_HIGH_def

lemma to_wake_effect:
  "regs (snd (tegra186_gpio_to_wake g s)) = regs s"
  "trace (snd (tegra186_gpio_to_wake g s)) = trace s \<or>
   (\<exists>i. trace (snd (tegra186_gpio_to_wake g s)) = trace s @ [Log (WakeFound i g)])"
  by (simp_all add: tegra186_gpio_to_wake_def emit_simps split: option.split)

lemma set_type_reject:
  assumes "irq_type_switch type = None"
  shows "tegra_gpio_irq_set_type d type s = (- EINVAL, snd (tegra186_gpio_to_wake (hwirq_gpio d) s))"
  using assms by (simp add: tegra_gpio_irq_set_type_def Let_def split_def)

lemma set_type_accept:
  assumes "hwirq d < 256" and "irq_type_switch type = Some (t, l)"
  shows "fst (tegra_gpio_irq_set_type d type s) = 0"
    and "regs (snd (tegra_gpio_irq_set_type d type s))
           (translate (word_of_int (hwirq_gpio d)) GPIO_ENB_CONFIG_REG) =
         (((regs s (translate (word_of_int (hwirq_gpio d)) GPIO_ENB_CONFIG_REG)
            AND NOT (push_bit GPIO_TRG_TYPE_BIT_OFFSET 0x3 OR GPIO_TRG_LVL_BIT))
            OR (push_bit 4 t OR push_bit 2 l)) AND - 2) OR 1"
  using hwirq_gpio_eq(4) [OF assms(1)] assms(2)
  by (simp_all add: tegra_gpio_irq_set_type_def tegra_gpio_enable_def Let_def split_def
      readl_regs writel_regs update_regs emit_simps to_wake_effect(1))

lemma set_type_case:
  assumes "hwirq d < 256" and "irq_type_switch type = Some (t, l)"
    and "t = 0 \<or> t = 1" and "l = 1 \<or> l = 2 \<or> l = 3"
  shows "fst (tegra_gpio_irq_set_type d type s) = 0"
    and "drop_bit 2 (regs (snd (tegra_gpio_irq_set_type d type s))
           (translate (word_of_int (hwirq_gpio d)) GPIO_ENB_CONFIG_REG)) AND 3 = l"
    and "bit (regs (snd (tegra_gpio_irq_set_type d type s))
           (translate (word_of_int (hwirq_gpio d)) GPIO_ENB_CONFIG_REG)) 4 = (t = 1)"
proof -
  note v = set_type_accept(2) [OF assms(1,2), of s]
  show "fst (tegra_gpio_irq_set_type d type s) = 0" by (rule set_type_accept(1) [OF assms(1,2)])
  show "drop_bit 2 (regs (snd (tegra_gpio_irq_set_type d type s))
           (translate (word_of_int (hwirq_gpio d)) GPIO_ENB_CONFIG_REG)) AND 3 = l"
    unfolding v kind_field using assms(3,4)
    by (auto simp add: GPIO_TRG_TYPE_BIT_OFFSET_def GPIO_TRG_LVL_BIT_def BIT_def bit_simps)
  show "bit (regs (snd (tegra_gpio_irq_set_type d type s))
           (translate (word_of_int (hwirq_gpio d)) GPIO_ENB_CONFIG_REG)) 4 = (t = 1)"
    unfolding v using assms(3,4)
    by (auto simp add: GPIO_TRG_TYPE_BIT_OFFSET_def GPIO_TRG_LVL_BIT_def BIT_def bit_simps)
qed

lemma upt8: "[0 ..< 8] = [0, 1, 2, 3, 4, 5, 6, 7 :: nat]"
  by (simp add: upt_rec)

lemma upt32: "[0 ..< 32] = [0, 1, 2, 3, 4, 5, 6, 7, 8, 9, 10, 11, 12, 13, 14, 15, 16, 17, 18, 19,
    20, 21, 22, 23, 24, 25, 26, 27, 28, 29, 30, 31 :: nat]"
  by (simp add: upt_rec)

lemmas port_map_defs = build_port_map_def port_map_step_def cinfo_defs MAX_GPIO_PORTS_def upt32
  numeral_eq_Suc

lemma port_maps:
  "build_port_map 0 = [13, 14, 16, 19, 8, 17, - 1, - 1]"
  "build_port_map 1 = [7, 11, 23, 24, - 1, - 1, - 1, - 1]"
  "build_port_map 2 = [0, 4, 5, 27, - 1, - 1, - 1, - 1]"
  "build_port_map 3 = [1, 2, 3, - 1, - 1, - 1, - 1, - 1]"
  "build_port_map 4 = [15, 6, - 1, - 1, - 1, - 1, - 1, - 1]"
  "build_port_map 5 = [9, 10, 28, 12, - 1, - 1, - 1, - 1]"
  "build_port_map 6 = [31, 18, 20, 30, 21, 22, 26, 25]"
  by (simp_all add: port_map_defs)

lemma slot_ports:
  "map (ports_of_slot 0) [0 ..< 8] = [[13], [14], [16], [19], [8], [17], [], []]"
  "map (ports_of_slot 1) [0 ..< 8] = [[7], [11], [23], [24], [], [], [], []]"
  "map (ports_of_slot 2) [0 ..< 8] = [[0], [4], [5], [27], [], [], [], []]"
  "map (ports_of_slot 3) [0 ..< 8] = [[1], [2], [3], [], [], [], [], []]"
  "map (ports_of_slot 4) [0 ..< 8] = [[15], [6], [], [], [], [], [], []]"
  "map (ports_of_slot 5) [0 ..< 8] = [[9], [10], [28], [12], [], [], [], []]"
  "map (ports_of_slot 6) [0 ..< 8] = [[31], [18], [20], [30], [21], [22], [26], [25]]"
  by (simp_all add: ports_of_slot_def MAX_PORTS_def cinfo_defs upt32 upt8)

lemma dispatched_append: "dispatched (xs @ ys) = dispatched xs @ dispatched ys"
  by (induction xs rule: dispatched.induct) simp_all

lemma dispatched_map: "dispatched (map (\<lambda>b. Dispatch (f b)) bs) = map f bs"
  by (induction bs) simp_all

lemma for_each_set_bit_dispatch:
  "trace (fold (\<lambda>pin s. if bit val pin then dispatch env (g + word_of_nat pin) s else s) bs s) =
      trace s @ map (\<lambda>b. Dispatch (g + word_of_nat b)) (filter (bit val) bs)
    \<and> regs (fold (\<lambda>pin s. if bit val pin then dispatch env (g + word_of_nat pin) s else s) bs s) =
      fold (generic_handle_irq env) (map (\<lambda>b. g + word_of_nat b) (filter (bit val) bs)) (regs s)"
proof (induction bs arbitrary: s)
  case Nil
  show ?case by simp
next
  case (Cons b bs)
  show ?case
  proof (cases "bit val b")
    case True
    have t: "trace (dispatch env (g + word_of_nat b) s) = trace s @ [Dispatch (g + word_of_nat b)]"
      and r: "regs (dispatch env (g + word_of_nat b) s) =
        generic_handle_irq env (g + word_of_nat b) (regs s)"
      by (simp_all add: dispatch_def Let_def emit_def)
    from True Cons.IH [of "dispatch env (g + word_of_nat b) s"] t r show ?thesis by simp
  next
    case False
    with Cons.IH [of s] show ?thesis by simp
  qed
qed

lemma irq_scan_port_unmapped:
  "port_map ! i = - 1 \<Longrightarrow> irq_scan_port env port_map i s = s"
  by (simp add: irq_scan_port_def)

lemma irq_scan_port_mapped:
  assumes pm: "port_map ! i = int p"
  shows "(dispatched (trace (irq_scan_port env port_map i s)),
          regs (irq_scan_port env port_map i s)) =
         demux_port env p (dispatched (trace s), regs s)"
proof -
  define s1 where "s1 = emit (RegRead (fst (int_status_reg p)) (snd (int_status_reg p))) s"
  have g: "\<And>b. (word_of_nat p * 8 :: u32) + word_of_nat b = of_nat (p * 8 + b)"
    by simp
  have scan: "irq_scan_port env port_map i s =
      fold (\<lambda>pin t. if bit (regs s (int_status_reg p)) pin
                     then dispatch env (word_of_nat p * 8 + word_of_nat pin) t else t)
        [0 ..< 8] s1"
    using pm
    by (simp add: irq_scan_port_def Let_def for_each_set_bit_def raw_readl_def cinfo_def
        int_status_reg_def GPIO_INT_STATUS_OFFSET_def GPIO_STATUS_G1_def s1_def)
  note f = for_each_set_bit_dispatch [of "regs s (int_status_reg p)" env
      "word_of_nat p * 8" "[0 ..< 8]" s1]
  from f show ?thesis
    unfolding scan g
    by (simp add: s1_def emit_simps dispatched_append dispatched_map pending_pins_def
        demux_port_def Let_def)
qed

lemma slots_fold:
  assumes pm: "\<forall>i \<in> set sl. port_map ! i = - 1 \<or> 0 \<le> port_map ! i"
  shows "(dispatched (trace (fold (irq_scan_port env port_map) sl s)),
          regs (fold (irq_scan_port env port_map) sl s)) =
         fold (\<lambda>i acc. if port_map ! i = - 1 then acc
                         else demux_port env (nat (port_map ! i)) acc) sl
           (dispatched (trace s), regs s)"
  using pm
proof (induction sl arbitrary: s)
  case Nil
  show ?case by simp
next
  case (Cons i sl)
  show ?case
  proof (cases "port_map ! i = - 1")
    case True
    with Cons.IH [of s] Cons.prems show ?thesis
      by (simp add: irq_scan_port_unmapped)
  next
    case False
    with Cons.prems have p: "port_map ! i = int (nat (port_map ! i))" by auto
    from Cons.IH [of "irq_scan_port env port_map i s"] Cons.prems False
      irq_scan_port_mapped [OF p, of env s]
    show ?thesis by simp
  qed
qed

lemma demux_prefix:
  "fold (demux_port env) ps (ds, r) =
     (ds @ fst (fold (demux_port env) ps ([], r)), snd (fold (demux_port env) ps ([], r)))"
proof (induction ps arbitrary: ds r)
  case Nil
  show ?case by simp
next
  case (Cons p ps)
  define pins where "pins = pending_pins r p"
  define r' where "r' = fold (generic_handle_irq env) pins r"
  have 1: "demux_port env p (ds, r) = (ds @ pins, r')"
    and 2: "demux_port env p ([], r) = (pins, r')"
    by (simp_all add: demux_port_def Let_def pins_def r'_def)
  show ?case
    using Cons.IH [of "ds @ pins" r'] Cons.IH [of pins r']
    by (simp add: 1 2)
qed

lemma controller_cases:
  assumes "0 \<le> c" and "c < MAX_GPIO_CONTROLLERS"
  shows "c = 0 \<or> c = 1 \<or> c = 2 \<or> c = 3 \<or> c = 4 \<or> c = 5 \<or> c = (6 :: int)"
  using assms unfolding MAX_GPIO_CONTROLLERS_def by arith

lemma controller_ports:
  "concat (map (ports_of_slot 0) [0 ..< 8]) = [13, 14, 16, 19, 8, 17]"
  "concat (map (ports_of_slot 1) [0 ..< 8]) = [7, 11, 23, 24]"
  "concat (map (ports_of_slot 2) [0 ..< 8]) = [0, 4, 5, 27]"
  "concat (map (ports_of_slot 3) [0 ..< 8]) = [1, 2, 3]"
  "concat (map (ports_of_slot 4) [0 ..< 8]) = [15, 6]"
  "concat (map (ports_of_slot 5) [0 ..< 8]) = [9, 10, 28, 12]"
  "concat (map (ports_of_slot 6) [0 ..< 8]) = [31, 18, 20, 30, 21, 22, 26, 25]"
  unfolding slot_ports by simp_all

lemma port_map_fold:
  "fold (\<lambda>i acc. if build_port_map 0 ! i = - 1 then acc
       else demux_port env (nat (build_port_map 0 ! i)) acc) [0 ..< 8] acc =
     fold (demux_port env) (concat (map (ports_of_slot 0) [0 ..< 8])) acc"
  "fold (\<lambda>i acc. if build_port_map 1 ! i = - 1 then acc
       else demux_port env (nat (build_port_map 1 ! i)) acc) [0 ..< 8] acc =
     fold (demux_port env) (concat (map (ports_of_slot 1) [0 ..< 8])) acc"
  "fold (\<lambda>i acc. if build_port_map 2 ! i = - 1 then acc
       else demux_port env (nat (build_port_map 2 ! i)) acc) [0 ..< 8] acc =
     fold (demux_port env) (concat (map (ports_of_slot 2) [0 ..< 8])) acc"
  "fold (\<lambda>i acc. if build_port_map 3 ! i = - 1 then acc
       else demux_port env (nat (build_port_map 3 ! i)) acc) [0 ..< 8] acc =
     fold (demux_port env) (concat (map (ports_of_slot 3) [0 ..< 8])) acc"
  "fold (\<lambda>i acc. if build_port_map 4 ! i = - 1 then acc
       else demux_port env (nat (build_port_map 4 ! i)) acc) [0 ..< 8] acc =
     fold (demux_port env) (concat (map (ports_of_slot 4) [0 ..< 8])) acc"
  "fold (\<lambda>i acc. if build_port_map 5 ! i = - 1 then acc
       else demux_port env (nat (build_port_map 5 ! i)) acc) [0 ..< 8] acc =
     fold (demux_port env) (concat (map (ports_of_slot 5) [0 ..< 8])) acc"
  "fold (\<lambda>i acc. if build_port_map 6 ! i = - 1 then acc
       else demux_port env (nat (build_port_map 6 ! i)) acc) [0 ..< 8] acc =
     fold (demux_port env) (concat (map (ports_of_slot 6) [0 ..< 8])) acc"
  by (simp_all only: controller_ports) (simp_all add: port_maps upt8)

lemma port_map_range:
  "\<forall>i \<in> set [0 ..< 8]. build_port_map 0 ! i = - 1 \<or> 0 \<le> build_port_map 0 ! i"
  "\<forall>i \<in> set [0 ..< 8]. build_port_map 1 ! i = - 1 \<or> 0 \<le> build_port_map 1 ! i"
  "\<forall>i \<in> set [0 ..< 8]. build_port_map 2 ! i = - 1 \<or> 0 \<le> build_port_map 2 ! i"
  "\<forall>i \<in> set [0 ..< 8]. build_port_map 3 ! i = - 1 \<or> 0 \<le> build_port_map 3 ! i"
  "\<forall>i \<in> set [0 ..< 8]. build_port_map 4 ! i = - 1 \<or> 0 \<le> build_port_map 4 ! i"
  "\<forall>i \<in> set [0 ..< 8]. build_port_map 5 ! i = - 1 \<or> 0 \<le> build_port_map 5 ! i"
  "\<forall>i \<in> set [0 ..< 8]. build_port_map 6 ! i = - 1 \<or> 0 \<le> build_port_map 6 ! i"
  unfolding port_maps upt8 by simp_all

lemma demux_order_port_map:
  assumes "0 \<le> c" and "c < MAX_GPIO_CONTROLLERS"
  shows "fold (\<lambda>i acc. if build_port_map c ! i = - 1 then acc
             else demux_port env (nat (build_port_map c ! i)) acc) [0 ..< 8] acc =
         fold (demux_port env) (concat (map (ports_of_slot c) [0 ..< 8])) acc"
    and "\<forall>i \<in> set [0 ..< 8]. build_port_map c ! i = - 1 \<or> 0 \<le> build_port_map c ! i"
  using controller_cases [OF assms] port_map_fold [of env acc] port_map_range
  by blast+

lemma handler_dispatched:
  assumes "0 \<le> c" and "c < MAX_GPIO_CONTROLLERS"
  shows "dispatched (trace (tegra_gpio_irq_handler_desc env c s)) =
      dispatched (trace s) @ fst (demux_order env c (regs s))"
    and "regs (tegra_gpio_irq_handler_desc env c s) = snd (demux_order env c (regs s))"
proof -
  define s2 where "s2 = fold (irq_scan_port env (build_port_map c)) [0 ..< 8] (emit ChainedEnter s)"
  have "(dispatched (trace s2), regs s2) =
      fold (demux_port env) (concat (map (ports_of_slot c) [0 ..< 8]))
        (dispatched (trace (emit ChainedEnter s)), regs (emit ChainedEnter s))"
    unfolding s2_def slots_fold [OF demux_order_port_map(2) [OF assms]]
      demux_order_port_map(1) [OF assms] ..
  also have "\<dots> = (dispatched (trace s) @ fst (demux_order env c (regs s)),
      snd (demux_order env c (regs s)))"
    by (subst demux_prefix)
      (simp add: demux_order_def MAX_GPIO_PORTS_def emit_simps dispatched_append del: upt_Suc)
  finally have d: "dispatched (trace s2) = dispatched (trace s) @ fst (demux_order env c (regs s))"
    and r: "regs s2 = snd (demux_order env c (regs s))"
    by simp_all
  have h: "tegra_gpio_irq_handler_desc env c s = emit ChainedExit s2"
    by (simp add: tegra_gpio_irq_handler_desc_def Let_def MAX_GPIO_PORTS_def s2_def del: upt_Suc)
  show "dispatched (trace (tegra_gpio_irq_handler_desc env c s)) =
      dispatched (trace s) @ fst (demux_order env c (regs s))"
    unfolding h by (simp add: emit_simps dispatched_append d)
  show "regs (tegra_gpio_irq_handler_desc env c s) = snd (demux_order env c (regs s))"
    unfolding h by (simp add: emit_simps r)
qed

lemma unat_pin:
  assumes "p < 32" and "b < 8"
  shows "unat (of_nat (p * 8 + b) :: u32) = p * 8 + b"
proof -
  have "unat (of_nat (p * 8 + b) :: u32) = (p * 8 + b) mod 2 ^ LENGTH(32)"
    by (rule unat_of_nat)
  also have "\<dots> = p * 8 + b" using assms by simp
  finally show ?thesis .
qed

lemma pending_pins_port:
  assumes "p < 32" and "g \<in> set (pending_pins r p)"
  shows "unat g div 8 = p"
  using assms by (auto simp add: pending_pins_def unat_pin simp del: of_nat_add of_nat_mult)

lemma pending_pins_sorted:
  assumes "p < 32"
  shows "sorted_wrt dispatch_before (pending_pins r p)"
proof -
  have "sorted_wrt (<) (filter (bit (r (int_status_reg p))) [0 ..< 8])"
    by (rule sorted_wrt_filter) simp
  then have "sorted_wrt (\<lambda>a b. a < b \<and> a < 8 \<and> b < 8) (filter (bit (r (int_status_reg p))) [0 ..< 8])"
    by (rule sorted_wrt_mono_rel [rotated]) auto
  then show ?thesis
    unfolding pending_pins_def sorted_wrt_map
    by (rule sorted_wrt_mono_rel [rotated])
      (auto simp add: dispatch_before_def slot_of_pin_def unat_pin [OF assms]
        simp del: of_nat_add of_nat_mult)
qed

lemma demux_sorted:
  assumes "\<forall>p \<in> set ps. p < 32"
    and "sorted_wrt (\<lambda>p q. cont_index (tegra_gpio_cinfo ! p) < cont_index (tegra_gpio_cinfo ! q)) ps"
  shows "sorted_wrt dispatch_before (fst (fold (demux_port env) ps ([], r)))
    \<and> (\<forall>g \<in> set (fst (fold (demux_port env) ps ([], r))). unat g div 8 \<in> set ps)"
  using assms
proof (induction ps arbitrary: r)
  case Nil
  show ?case by simp
next
  case (Cons p ps)
  define pins where "pins = pending_pins r p"
  define r' where "r' = fold (generic_handle_irq env) pins r"
  define rest where "rest = fst (fold (demux_port env) ps ([], r'))"
  have f: "fst (fold (demux_port env) (p # ps) ([], r)) = pins @ rest"
    using demux_prefix [of env ps pins r']
    by (simp add: demux_port_def Let_def pins_def r'_def rest_def)
  from Cons.prems have p: "p < 32" by simp
  from Cons.IH [of r'] Cons.prems
  have ih: "sorted_wrt dispatch_before rest" "\<forall>g \<in> set rest. unat g div 8 \<in> set ps"
    by (simp_all add: rest_def)
  have pp: "\<forall>g \<in> set pins. unat g div 8 = p"
    using pending_pins_port [OF p] by (simp add: pins_def)
  have cross: "\<forall>x \<in> set pins. \<forall>y \<in> set rest. dispatch_before x y"
  proof (intro ballI)
    fix x y assume "x \<in> set pins" and "y \<in> set rest"
    with pp ih(2) have "unat x div 8 = p" and "unat y div 8 \<in> set ps" by auto
    with Cons.prems(2) have "slot_of_pin x < slot_of_pin y"
      by (auto simp add: slot_of_pin_def)
    then show "dispatch_before x y" by (simp add: dispatch_before_def)
  qed
  have "sorted_wrt dispatch_before (pins @ rest)"
    using pending_pins_sorted [OF p, of r] ih(1) cross
    by (simp add: sorted_wrt_append pins_def)
  moreover have "\<forall>g \<in> set (pins @ rest). unat g div 8 \<in> set (p # ps)"
    using pp ih(2) by auto
  ultimately show ?case unfolding f by simp
qed

lemma controller_ports_member:
  "\<forall>p \<in> set (concat (map (ports_of_slot 0) [0 ..< 8])). p < 32
      \<and> cont_id (tegra_gpio_cinfo ! p) = 0"
  "\<forall>p \<in> set (concat (map (ports_of_slot 1) [0 ..< 8])). p < 32
      \<and> cont_id (tegra_gpio_cinfo ! p) = 1"
  "\<forall>p \<in> set (concat (map (ports_of_slot 2) [0 ..< 8])). p < 32
      \<and> cont_id (tegra_gpio_cinfo ! p) = 2"
  "\<forall>p \<in> set (concat (map (ports_of_slot 3) [0 ..< 8])). p < 32
      \<and> cont_id (tegra_gpio_cinfo ! p) = 3"
  "\<forall>p \<in> set (concat (map (ports_of_slot 4) [0 ..< 8])). p < 32
      \<and> cont_id (tegra_gpio_cinfo ! p) = 4"
  "\<forall>p \<in> set (concat (map (ports_of_slot 5) [0 ..< 8])). p < 32
      \<and> cont_id (tegra_gpio_cinfo ! p) = 5"
  "\<forall>p \<in> set (concat (map (ports_of_slot 6) [0 ..< 8])). p < 32
      \<and> cont_id (tegra_gpio_cinfo ! p) = 6"
  by (simp_all only: controller_ports) (simp_all add: cinfo_defs)

lemma controller_ports_increasing:
  "sorted_wrt (\<lambda>p q. cont_index (tegra_gpio_cinfo ! p) < cont_index (tegra_gpio_cinfo ! q))
      (concat (map (ports_of_slot 0) [0 ..< 8]))"
  "sorted_wrt (\<lambda>p q. cont_index (tegra_gpio_cinfo ! p) < cont_index (tegra_gpio_cinfo ! q))
      (concat (map (ports_of_slot 1) [0 ..< 8]))"
  "sorted_wrt (\<lambda>p q. cont_index (tegra_gpio_cinfo ! p) < cont_index (tegra_gpio_cinfo ! q))
      (concat (map (ports_of_slot 2) [0 ..< 8]))"
  "sorted_wrt (\<lambda>p q. cont_index (tegra_gpio_cinfo ! p) < cont_index (tegra_gpio_cinfo ! q))
      (concat (map (ports_of_slot 3) [0 ..< 8]))"
  "sorted_wrt (\<lambda>p q. cont_index (tegra_gpio_cinfo ! p) < cont_index (tegra_gpio_cinfo ! q))
      (concat (map (ports_of_slot 4) [0 ..< 8]))"
  "sorted_wrt (\<lambda>p q. cont_index (tegra_gpio_cinfo ! p) < cont_index (tegra_gpio_cinfo ! q))
      (concat (map (ports_of_slot 5) [0 ..< 8]))"
  "sorted_wrt (\<lambda>p q. cont_index (tegra_gpio_cinfo ! p) < cont_index (tegra_gpio_cinfo ! q))
      (concat (map (ports_of_slot 6) [0 ..< 8]))"
  by (simp_all only: controller_ports) (simp_all add: cinfo_defs)

lemma controller_ports_sorted:
  assumes "0 \<le> c" and "c < MAX_GPIO_CONTROLLERS"
  shows "\<forall>p \<in> set (concat (map (ports_of_slot c) [0 ..< 8])). p < 32
      \<and> cont_id (tegra_gpio_cinfo ! p) = c"
    and "sorted_wrt (\<lambda>p q. cont_index (tegra_gpio_cinfo ! p) < cont_index (tegra_gpio_cinfo ! q))
      (concat (map (ports_of_slot c) [0 ..< 8]))"
  using controller_cases [OF assms] controller_ports_member controller_ports_increasing
  by blast+

lemma demux_order_sorted:
  assumes "0 \<le> c" and "c < MAX_GPIO_CONTROLLERS"
  shows "sorted_wrt dispatch_before (fst (demux_order env c r))"
    and "list_all (\<lambda>g. cont_id (tegra_gpio_cinfo ! (unat g div 8)) = c) (fst (demux_order env c r))"
proof -
  note m = controller_ports_sorted [OF assms]
  from m(1) have b: "\<forall>p \<in> set (concat (map (ports_of_slot c) [0 ..< 8])). p < 32" by blast
  note d = demux_sorted [OF b m(2), of env r]
  from d show "sorted_wrt dispatch_before (fst (demux_order env c r))"
    by (simp add: demux_order_def MAX_GPIO_PORTS_def del: upt_Suc)
  from d m(1) show "list_all (\<lambda>g. cont_id (tegra_gpio_cinfo ! (unat g div 8)) = c)
      (fst (demux_order env c r))"
    unfolding list_all_iff demux_order_def MAX_GPIO_PORTS_def by blast
qed

subsection \<open>The accessibility check\<close>

text \<open>
  Claim C2. For a pin identifier below 256, \<open>is_gpio_accessible\<close> answers false and
  leaves the state as it is (so no register is read: the trace is unchanged) when the
  pin in the port is not below the port's count of wired pins or when the port's
  controller id is -1. Otherwise it reads exactly one register, the security register at
  \<open>scr_offset + pin * 0x08 + 0x04\<close> of the port's window, and answers true if and only if
  the bits 28 (write enable), 27 (read enable), 9 (group write) and 1 (group read) of the
  value are all set.
\<close>

theorem is_gpio_accessible_check:
  assumes "offset < 256"
  shows "is_gpio_accessible offset s =
    (let p = cinfo (GPIO_PORT offset);
         pin = GPIO_PIN offset
     in if valid_pins p \<le> pin \<or> cont_id p = - 1 then (False, s)
        else (let a = scr_offset p + pin * 0x08 + 0x04;
                  v = regs s (reg_index p, a)
              in (bit v 28 \<and> bit v 27 \<and> bit v 9 \<and> bit v 1,
                  s\<lparr>trace := trace s @ [RegRead (reg_index p) a]\<rparr>)))"
  by (simp add: is_gpio_accessible_translate [OF assms] translate_security_eq Let_def emit_def)

theorem is_gpio_accessible_check_witness:
  "(0 :: u32) < 256 \<and>
   is_gpio_accessible 0 \<lparr>regs = (\<lambda>a. 0x18000202), trace = []\<rparr> =
     (True, \<lparr>regs = (\<lambda>a. 0x18000202), trace = [RegRead 0 0x2004]\<rparr>)"
  using is_gpio_accessible_check [of 0 "\<lparr>regs = (\<lambda>a. 0x18000202), trace = []\<rparr>"]
  by (simp add: cinfo_def cinfo_defs GPIO_PORT_def GPIO_PIN_def)

subsection \<open>Register addresses\<close>

text \<open>
  Claim C9. For every pin identifier below 256 and every register offset below
  \<open>2^31\<close> (the per-pin registers are at 0x00 to 0x14), the three register accessors
  act on the register that the specification's \<open>translate\<close> names: the port's window,
  at the port's general block offset plus the identifier modulo 8 times 0x20 plus the
  register offset. The accessibility check, whenever the pin is below the port's wired
  count and the port exists, reads exactly the register that \<open>translate_security\<close>
  names (the port's security block offset plus the identifier modulo 8 times 0x08 plus
  0x04) and answers by the full-access bits of the value stored there; otherwise it
  reads nothing.
\<close>

theorem register_addresses:
  assumes "gpio < 256" and "uint reg < 2 ^ 31"
  shows "tegra_gpio_readl gpio reg s =
      (regs s (translate gpio reg),
       s\<lparr>trace := trace s @ [RegRead (fst (translate gpio reg)) (snd (translate gpio reg))]\<rparr>)
    \<and> tegra_gpio_writel val gpio reg s =
      s\<lparr>regs := (regs s)(translate gpio reg := val),
        trace := trace s @ [RegWrite (fst (translate gpio reg)) (snd (translate gpio reg)) val]\<rparr>
    \<and> tegra_gpio_update gpio reg msk val s =
      s\<lparr>regs := (regs s)(translate gpio reg :=
              (regs s (translate gpio reg) AND NOT msk) OR (val AND msk)),
        trace := trace s @
          [RegRead (fst (translate gpio reg)) (snd (translate gpio reg)),
           RegWrite (fst (translate gpio reg)) (snd (translate gpio reg))
             ((regs s (translate gpio reg) AND NOT msk) OR (val AND msk))]\<rparr>
    \<and> is_gpio_accessible gpio s =
      (if valid_pins (cinfo (GPIO_PORT gpio)) \<le> GPIO_PIN gpio
          \<or> cont_id (cinfo (GPIO_PORT gpio)) = - 1
       then (False, s)
       else (regs s (translate_security gpio) AND GPIO_FULL_ACCESS = GPIO_FULL_ACCESS,
             s\<lparr>trace := trace s @
               [RegRead (fst (translate_security gpio)) (snd (translate_security gpio))]\<rparr>))"
  by (simp add: readl_translate [OF assms] writel_translate [OF assms]
      update_translate [OF assms] is_gpio_accessible_translate [OF assms(1)] emit_def Let_def
      full_access_bits)

theorem register_addresses_witness:
  "(0x11 :: u32) < 256 \<and> uint (GPIO_OUT_VAL_REG) < 2 ^ 31 \<and>
   translate 0x11 GPIO_OUT_VAL_REG = (0, 0x13230) \<and>
   translate_security 0x11 = (0, 0x304C) \<and>
   tegra_gpio_readl 0x11 GPIO_OUT_VAL_REG hw_zero =
     (0, \<lparr>regs = (\<lambda>a. 0), trace = [RegRead 0 0x13230]\<rparr>) \<and>
   is_gpio_accessible 0x11
       \<lparr>regs = (\<lambda>a. if a = (0, 0x304C) then 0x18000202 else 0), trace = []\<rparr> =
     (True, \<lparr>regs = (\<lambda>a. if a = (0, 0x304C) then 0x18000202 else 0),
             trace = [RegRead 0 0x304C]\<rparr>) \<and>
   is_gpio_accessible 0x11
       \<lparr>regs = (\<lambda>a. if a = (0, 0x304C) then 0 else 0x18000202), trace = []\<rparr> =
     (False, \<lparr>regs = (\<lambda>a. if a = (0, 0x304C) then 0 else 0x18000202),
              trace = [RegRead 0 0x304C]\<rparr>)"
  using register_addresses [of "0x11" GPIO_OUT_VAL_REG hw_zero]
    register_addresses [of "0x11" GPIO_OUT_VAL_REG
      "\<lparr>regs = (\<lambda>a. if a = (0, 0x304C) then 0x18000202 else 0), trace = []\<rparr>"]
    register_addresses [of "0x11" GPIO_OUT_VAL_REG
      "\<lparr>regs = (\<lambda>a. if a = (0, 0x304C) then 0 else 0x18000202), trace = []\<rparr>"]
  by (simp add: translate_def translate_security_def cinfo_def cinfo_defs hw_zero_def gpio_consts
      GPIO_PORT_def GPIO_PIN_def)

subsection \<open>Pins beyond the wired count\<close>

text \<open>
  Claim C1, as stated, fails: only \<open>tegra_gpio_request\<close> consults the accessibility
  check. Pin 7 is the eighth pin of port A, which has 7 wired pins. On it, with every
  register 0, \<open>tegra_gpio_set\<close> (which returns nothing) writes the output value and
  output control registers, and \<open>tegra_gpio_direction_input\<close>,
  \<open>tegra_gpio_direction_output\<close> and \<open>tegra_gpio_set_debounce\<close> return 0, not \<open>-EBUSY\<close>,
  after reading and writing the pin's registers.
\<close>

theorem unwired_pin_mutation_counterexample:
  "valid_pins (cinfo (GPIO_PORT 7)) \<le> GPIO_PIN 7 \<and> - EBUSY \<noteq> (0 :: int) \<and>
   trace (tegra_gpio_set 7 1 hw_zero) = [RegWrite 0 0x120F0 1, RegWrite 0 0x120EC 0] \<and>
   fst (tegra_gpio_direction_input accepting 7 hw_zero) = 0 \<and>
   trace (snd (tegra_gpio_direction_input accepting 7 hw_zero)) =
     [RegRead 0 0x120E0, RegWrite 0 0x120E0 0, RegRead 0 0x120E0, RegWrite 0 0x120E0 1,
      PinctrlDirectionInput 7] \<and>
   fst (tegra_gpio_direction_output accepting 7 1 hw_zero) = 0 \<and>
   trace (snd (tegra_gpio_direction_output accepting 7 1 hw_zero)) =
     [RegWrite 0 0x120F0 1, RegWrite 0 0x120EC 0,
      RegRead 0 0x120E0, RegWrite 0 0x120E0 2, RegRead 0 0x120E0, RegWrite 0 0x120E0 3,
      PinctrlDirectionOutput 7] \<and>
   fst (tegra_gpio_set_debounce 7 1000 hw_zero) = 0 \<and>
   trace (snd (tegra_gpio_set_debounce 7 1000 hw_zero)) =
     [RegRead 0 0x120E0, RegWrite 0 0x120E0 1, RegRead 0 0x12100, RegWrite 0 0x12100 1,
      RegWrite 0 0x120E4 1]"
  by (simp add: tegra_gpio_direction_input_def tegra_gpio_direction_output_def
      tegra_gpio_set_def tegra_gpio_set_debounce_def DIV_ROUND_UP_def
      set_gpio_direction_mode_def tegra_gpio_enable_def
      tegra_gpio_readl_def tegra_gpio_writel_def tegra_gpio_update_def raw_readl_def raw_writel_def
      emit_def Let_def cinfo_def cinfo_defs GPIO_PORT_def GPIO_PIN_def hw_zero_def accepting_def
      gpio_consts chip_base_def EBUSY_def)

text \<open>
  Claim C1, amended. For every pin identifier below 256 whose pin in the port is not
  below the port's count of wired pins, and for any content of the registers (the
  security register included), \<open>is_gpio_accessible\<close> answers false and
  \<open>tegra_gpio_request\<close> returns \<open>-EBUSY\<close>; both leave the state as it is: no register is
  read or written and the pin-multiplexing collaborator is not called. The other
  mutating operations perform no accessibility check on such a pin: \<open>tegra_gpio_set\<close>
  writes the output value and the output control register, \<open>tegra_gpio_direction_input\<close>
  returns 0 with the enable bit written, \<open>tegra_gpio_direction_output\<close> returns 0 with the
  direction bit written, and \<open>tegra_gpio_set_debounce\<close> returns 0 with the rounded
  threshold written.
\<close>

theorem unwired_pin_refused:
  assumes "offset < 256" and "valid_pins (cinfo (GPIO_PORT offset)) \<le> GPIO_PIN offset"
  shows "is_gpio_accessible offset s = (False, s)
    \<and> tegra_gpio_request env offset s = (- EBUSY, s)
    \<and> tegra_gpio_set offset value s =
        s\<lparr>regs := (regs s)
              (translate offset GPIO_OUT_VAL_REG := (if value \<noteq> 0 then 1 else 0),
               translate offset GPIO_OUT_CTRL_REG := 0),
          trace := trace s @
            [RegWrite (fst (translate offset GPIO_OUT_VAL_REG))
               (snd (translate offset GPIO_OUT_VAL_REG)) (if value \<noteq> 0 then 1 else 0),
             RegWrite (fst (translate offset GPIO_OUT_CTRL_REG))
               (snd (translate offset GPIO_OUT_CTRL_REG)) 0]\<rparr>
    \<and> fst (tegra_gpio_direction_input env offset s) = 0
    \<and> bit (regs (snd (tegra_gpio_direction_input env offset s))
           (translate offset GPIO_ENB_CONFIG_REG)) 0
    \<and> fst (tegra_gpio_direction_output env offset value s) = 0
    \<and> bit (regs (snd (tegra_gpio_direction_output env offset value s))
           (translate offset GPIO_ENB_CONFIG_REG)) 1
    \<and> fst (tegra_gpio_set_debounce offset debounce s) = 0
    \<and> regs (snd (tegra_gpio_set_debounce offset debounce s))
           (translate offset GPIO_DBC_THRES_REG) = DIV_ROUND_UP debounce 1000"
  using assms
  by (simp add: tegra_gpio_request_def is_gpio_accessible_translate
      tegra_gpio_direction_input_def tegra_gpio_direction_output_def
      set_gpio_direction_mode_def tegra_gpio_enable_def tegra_gpio_set_def
      tegra_gpio_set_debounce_def Let_def split_def
      readl_regs writel_regs update_regs emit_simps emit_def chip_base_add translate_distinct
      reg_distinct enable_bits inout_bits)

theorem unwired_pin_refused_witness:
  "(7 :: u32) < 256 \<and> valid_pins (cinfo (GPIO_PORT 7)) \<le> GPIO_PIN 7 \<and>
   is_gpio_accessible 7 \<lparr>regs = (\<lambda>a. 0x18000202), trace = []\<rparr> =
     (False, \<lparr>regs = (\<lambda>a. 0x18000202), trace = []\<rparr>) \<and>
   tegra_gpio_request accepting 7 \<lparr>regs = (\<lambda>a. 0x18000202), trace = []\<rparr> =
     (- 16, \<lparr>regs = (\<lambda>a. 0x18000202), trace = []\<rparr>) \<and>
   translate 7 GPIO_OUT_VAL_REG = (0, 0x120F0) \<and>
   translate 7 GPIO_OUT_CTRL_REG = (0, 0x120EC) \<and>
   trace (tegra_gpio_set 7 1 \<lparr>regs = (\<lambda>a. 0x18000202), trace = []\<rparr>) =
     [RegWrite 0 0x120F0 1, RegWrite 0 0x120EC 0] \<and>
   fst (tegra_gpio_direction_input accepting 7 \<lparr>regs = (\<lambda>a. 0x18000202), trace = []\<rparr>) = 0 \<and>
   fst (tegra_gpio_direction_output accepting 7 1 \<lparr>regs = (\<lambda>a. 0x18000202), trace = []\<rparr>) = 0 \<and>
   fst (tegra_gpio_set_debounce 7 1000 \<lparr>regs = (\<lambda>a. 0x18000202), trace = []\<rparr>) = 0 \<and>
   regs (snd (tegra_gpio_set_debounce 7 1000 \<lparr>regs = (\<lambda>a. 0x18000202), trace = []\<rparr>))
     (translate 7 GPIO_DBC_THRES_REG) = 1"
proof -
  have t: "translate 7 GPIO_OUT_VAL_REG = (0, 0x120F0)"
    "translate 7 GPIO_OUT_CTRL_REG = (0, 0x120EC)"
    by (simp_all add: translate_def cinfo_defs gpio_consts)
  show ?thesis
    using unwired_pin_refused [of 7 "\<lparr>regs = (\<lambda>a. 0x18000202), trace = []\<rparr>" accepting 1 1000]
    unfolding t
    by (simp add: cinfo_def cinfo_defs GPIO_PORT_def GPIO_PIN_def EBUSY_def DIV_ROUND_UP_def)
qed

subsection \<open>The enabled query\<close>

text \<open>
  Claim C10. For every pin identifier from 0 to 255, \<open>tegra_gpio_is_enabled\<close> returns
  0. When the pin is not accessible the two output parameters keep what they held
  before the call (they are not written); when it is accessible they receive the enable
  bit of the configuration register and the value of the output control register. The
  return value is 0 in both cases.
\<close>

theorem tegra_gpio_is_enabled_result:
  assumes "0 \<le> gpio" and "gpio < 256"
  shows "fst (tegra_gpio_is_enabled gpio outs s) = 0 \<and>
    fst (snd (tegra_gpio_is_enabled gpio outs s)) =
      (if fst (is_gpio_accessible (word_of_int gpio) s)
       then (of_bool (bit (regs s (translate (word_of_int gpio) GPIO_ENB_CONFIG_REG)) 0),
             sint (regs s (translate (word_of_int gpio) GPIO_OUT_CTRL_REG)))
       else outs)"
  using word_of_int_range [OF assms]
  by (simp add: tegra_gpio_is_enabled_def Let_def split_def readl_regs emit_simps sint_and_1
      is_gpio_accessible_regs)

theorem tegra_gpio_is_enabled_result_witness:
  "(0 :: int) \<le> 7 \<and> (7 :: int) < 256 \<and>
   \<not> fst (is_gpio_accessible (word_of_int 7) \<lparr>regs = (\<lambda>a. 0x18000202), trace = []\<rparr>) \<and>
   fst (tegra_gpio_is_enabled 7 (41, 42) \<lparr>regs = (\<lambda>a. 0x18000202), trace = []\<rparr>) = 0 \<and>
   fst (snd (tegra_gpio_is_enabled 7 (41, 42) \<lparr>regs = (\<lambda>a. 0x18000202), trace = []\<rparr>)) = (41, 42) \<and>
   fst (is_gpio_accessible (word_of_int 6) \<lparr>regs = (\<lambda>a. 0x18000202), trace = []\<rparr>) \<and>
   fst (tegra_gpio_is_enabled 6 (41, 42) \<lparr>regs = (\<lambda>a. 0x18000202), trace = []\<rparr>) = 0"
  using tegra_gpio_is_enabled_result [of 7 "(41, 42)" "\<lparr>regs = (\<lambda>a. 0x18000202), trace = []\<rparr>"]
    tegra_gpio_is_enabled_result [of 6 "(41, 42)" "\<lparr>regs = (\<lambda>a. 0x18000202), trace = []\<rparr>"]
  by (simp add: is_gpio_accessible_def cinfo_def cinfo_defs GPIO_PORT_def GPIO_PIN_def
      raw_readl_def Let_def gpio_consts)

subsection \<open>Read after write\<close>

text \<open>
  Claim C8. For every pin identifier below 256 (accessible or not):
  \<open>tegra_gpio_get\<close> returns the low bit of the output value register when bit 1 (the
  direction bit) of the configuration register is set, and the low bit of the input
  register otherwise; and when the direction bit is set, \<open>tegra_gpio_set\<close> with value 1
  followed by \<open>tegra_gpio_get\<close> returns 1, whatever the input register holds.
\<close>

theorem set_then_get:
  assumes "offset < 256"
  shows "fst (tegra_gpio_get offset s) =
      (if bit (regs s (translate offset GPIO_ENB_CONFIG_REG)) 1
       then of_bool (bit (regs s (translate offset GPIO_OUT_VAL_REG)) 0)
       else of_bool (bit (regs s (translate offset GPIO_INPUT_REG)) 0))
    \<and> (bit (regs s (translate offset GPIO_ENB_CONFIG_REG)) 1 \<longrightarrow>
         fst (tegra_gpio_get offset (tegra_gpio_set offset 1 s)) = 1)"
  using assms
  by (simp add: tegra_gpio_get_def tegra_gpio_set_def Let_def split_def readl_regs writel_regs
      emit_simps and_bit1 sint_and_1 translate_distinct reg_distinct)

theorem set_then_get_witness:
  "(8 :: u32) < 256 \<and>
   bit (regs \<lparr>regs = (\<lambda>a. 0x2), trace = []\<rparr> (translate 8 GPIO_ENB_CONFIG_REG)) 1 \<and>
   fst (tegra_gpio_get 8 \<lparr>regs = (\<lambda>a. 0x2), trace = []\<rparr>) = 0 \<and>
   fst (tegra_gpio_get 8 (tegra_gpio_set 8 1 \<lparr>regs = (\<lambda>a. 0x2), trace = []\<rparr>)) = 1"
  using set_then_get [of 8 "\<lparr>regs = (\<lambda>a. 0x2), trace = []\<rparr>"]
  by simp

subsection \<open>Rejection by the pin-multiplexing collaborator\<close>

text \<open>
  Claim C6, as stated, fails: with a collaborator that rejects the direction change
  with \<open>-EINVAL\<close>, \<open>tegra_gpio_direction_input\<close> and \<open>tegra_gpio_direction_output\<close>
  return 0, so the failure does not reach the caller through the return value.
\<close>

theorem direction_failure_counterexample:
  "pinctrl_gpio_direction_input rejecting (chip_base + 0) = - 22 \<and>
   fst (tegra_gpio_direction_input rejecting 0 hw_zero) = 0 \<and>
   pinctrl_gpio_direction_output rejecting (chip_base + 0) = - 22 \<and>
   fst (tegra_gpio_direction_output rejecting 0 1 hw_zero) = 0"
  by (simp add: tegra_gpio_direction_input_def tegra_gpio_direction_output_def Let_def
      rejecting_def EINVAL_def)

text \<open>
  Claim C6, amended. For every pin identifier below 256: when the pin-multiplexing
  collaborator answers a direction change with a negative value, the driver logs the
  failure as its last effect and returns 0; the registers written before the call stay
  written (direction bit cleared for input, set for output, enable bit set, and for
  output the value register and the cleared output control register).
\<close>

theorem direction_failure_logged_not_returned:
  assumes "offset < 256"
  shows "(pinctrl_gpio_direction_input env offset < 0 \<longrightarrow>
       fst (tegra_gpio_direction_input env offset s) = 0
     \<and> last (trace (snd (tegra_gpio_direction_input env offset s))) =
         Log (PinctrlInputFailed (pinctrl_gpio_direction_input env offset))
     \<and> \<not> bit (regs (snd (tegra_gpio_direction_input env offset s))
             (translate offset GPIO_ENB_CONFIG_REG)) 1
     \<and> bit (regs (snd (tegra_gpio_direction_input env offset s))
             (translate offset GPIO_ENB_CONFIG_REG)) 0)
   \<and> (pinctrl_gpio_direction_output env offset < 0 \<longrightarrow>
       fst (tegra_gpio_direction_output env offset value s) = 0
     \<and> last (trace (snd (tegra_gpio_direction_output env offset value s))) =
         Log (PinctrlOutputFailed (pinctrl_gpio_direction_output env offset))
     \<and> bit (regs (snd (tegra_gpio_direction_output env offset value s))
             (translate offset GPIO_ENB_CONFIG_REG)) 1
     \<and> bit (regs (snd (tegra_gpio_direction_output env offset value s))
             (translate offset GPIO_ENB_CONFIG_REG)) 0
     \<and> regs (snd (tegra_gpio_direction_output env offset value s))
             (translate offset GPIO_OUT_VAL_REG) = (if value \<noteq> 0 then 1 else 0)
     \<and> regs (snd (tegra_gpio_direction_output env offset value s))
             (translate offset GPIO_OUT_CTRL_REG) = 0)"
  using assms
  by (simp add: tegra_gpio_direction_input_def tegra_gpio_direction_output_def
      set_gpio_direction_mode_def tegra_gpio_enable_def tegra_gpio_set_def Let_def split_def
      readl_regs writel_regs update_regs emit_simps chip_base_add translate_distinct reg_distinct
      enable_bits inout_bits)

theorem direction_failure_logged_not_returned_witness:
  "(0 :: u32) < 256 \<and> pinctrl_gpio_direction_input rejecting 0 < 0 \<and>
   pinctrl_gpio_direction_output rejecting 0 < 0 \<and>
   fst (tegra_gpio_direction_input rejecting 0 hw_zero) = 0 \<and>
   last (trace (snd (tegra_gpio_direction_input rejecting 0 hw_zero))) =
     Log (PinctrlInputFailed (- 22)) \<and>
   bit (regs (snd (tegra_gpio_direction_input rejecting 0 hw_zero))
     (translate 0 GPIO_ENB_CONFIG_REG)) 0 \<and>
   fst (tegra_gpio_direction_output rejecting 0 1 hw_zero) = 0 \<and>
   last (trace (snd (tegra_gpio_direction_output rejecting 0 1 hw_zero))) =
     Log (PinctrlOutputFailed (- 22)) \<and>
   bit (regs (snd (tegra_gpio_direction_output rejecting 0 1 hw_zero))
     (translate 0 GPIO_ENB_CONFIG_REG)) 1 \<and>
   regs (snd (tegra_gpio_direction_output rejecting 0 1 hw_zero))
     (translate 0 GPIO_OUT_VAL_REG) = 1"
  using direction_failure_logged_not_returned [of 0 rejecting hw_zero 1]
  by (simp add: rejecting_def EINVAL_def)

subsection \<open>Debounce\<close>

text \<open>
  Claim C5 against the code: \<open>tegra_gpio_set_debounce\<close> passes \<open>GPIO_DEB_FUNC_BIT\<close>
  (0x20) as the register offset of its second update, with mask 0x5 and value 0x1. On
  pin 0 (port A, configuration register at 0x12000 of window 0), with every register 0
  and a debounce of 1000, the call returns 0, rounds to 1 and writes it to the threshold
  register 0x12004, and sets the enable bit of the configuration register; but bit 5,
  the debounce function bit, of the configuration register stays clear, and the second
  update lands on 0x12020, the configuration register of pin 1.
\<close>

theorem set_debounce_wrong_register:
  "DIV_ROUND_UP 0 1000 = 0 \<and> DIV_ROUND_UP 1 1000 = 1 \<and> DIV_ROUND_UP 1000 1000 = 1 \<and>
   DIV_ROUND_UP 1001 1000 = 2 \<and> DIV_ROUND_UP 2000 1000 = 2 \<and>
   translate 0 GPIO_ENB_CONFIG_REG = (0, 0x12000) \<and>
   translate 1 GPIO_ENB_CONFIG_REG = (0, 0x12020) \<and>
   translate 0 GPIO_DBC_THRES_REG = (0, 0x12004) \<and>
   fst (tegra_gpio_set_debounce 0 1000 hw_zero) = 0 \<and>
   trace (snd (tegra_gpio_set_debounce 0 1000 hw_zero)) =
     [RegRead 0 0x12000, RegWrite 0 0x12000 1,
      RegRead 0 0x12020, RegWrite 0 0x12020 1,
      RegWrite 0 0x12004 1] \<and>
   regs (snd (tegra_gpio_set_debounce 0 1000 hw_zero)) (0, 0x12000) = 1 \<and>
   \<not> bit (regs (snd (tegra_gpio_set_debounce 0 1000 hw_zero)) (0, 0x12000)) 5 \<and>
   regs (snd (tegra_gpio_set_debounce 0 1000 hw_zero)) (0, 0x12020) = 1"
  by (simp add: tegra_gpio_set_debounce_def DIV_ROUND_UP_def tegra_gpio_update_def
      tegra_gpio_writel_def raw_readl_def raw_writel_def emit_def Let_def
      cinfo_def cinfo_defs GPIO_PORT_def GPIO_PIN_def hw_zero_def gpio_consts
      translate_def)

subsection \<open>Wake enable\<close>

text \<open>
  Claim C7, as stated, fails in the error it names: pin 0 (port A pin 0) has no slot in
  the wake table, and \<open>tegra_gpio_irq_set_wake\<close> returns \<open>-EINVAL\<close> (-22), the value the
  table scan returns, which is the invalid-argument error and none of the kernel's
  not-supported errors. The state is unchanged: the registry is not called.
\<close>

theorem set_wake_absent_counterexample:
  "hwirq_gpio \<lparr>irq = 0, hwirq = 0\<rparr> \<notin> set tegra186_gpio_wakes \<and>
   tegra_gpio_irq_set_wake accepting \<lparr>irq = 0, hwirq = 0\<rparr> 1 hw_zero = (- 22, hw_zero) \<and>
   - EINVAL = (- 22 :: int) \<and>
   - ENOSYS \<noteq> (- 22 :: int) \<and> - EOPNOTSUPP \<noteq> (- 22 :: int) \<and> - ENOTSUPP \<noteq> (- 22 :: int)"
  by (simp add: tegra_gpio_irq_set_wake_def tegra186_gpio_to_wake_def hwirq_gpio_def
      wakes_defs ENOSYS_def EOPNOTSUPP_def ENOTSUPP_def)

text \<open>
  Claim C7, amended. For every hardware interrupt number below 256: when the pin occurs
  nowhere in the wake table, \<open>tegra_gpio_irq_set_wake\<close> returns \<open>-EINVAL\<close> and leaves the
  state as it is (the wake-event registry is not called); when the pin is entry \<open>i\<close> of
  the wake table, the registry is called once, with slot \<open>i\<close> and the enable value, and
  its answer is the return value, logged as a failure when it is not 0.
\<close>

theorem set_wake_lookup:
  assumes "hwirq d < 256"
  shows "(hwirq_gpio d \<notin> set tegra186_gpio_wakes \<longrightarrow>
        tegra_gpio_irq_set_wake env d enable s = (- EINVAL, s))
    \<and> (i < length tegra186_gpio_wakes \<and> tegra186_gpio_wakes ! i = hwirq_gpio d \<longrightarrow>
        tegra_gpio_irq_set_wake env d enable s =
          (tegra_pm_irq_set_wake env (int i) enable,
           s\<lparr>trace := trace s @
               [Log (WakeFound (int i) (hwirq_gpio d)), PmSetWake (int i) enable] @
               (if tegra_pm_irq_set_wake env (int i) enable \<noteq> 0
                then [Log (WakeFailed enable (tegra_pm_irq_set_wake env (int i) enable))]
                else [])\<rparr>))"
proof (intro conjI impI)
  assume "hwirq_gpio d \<notin> set tegra186_gpio_wakes"
  then show "tegra_gpio_irq_set_wake env d enable s = (- EINVAL, s)"
    by (simp add: tegra_gpio_irq_set_wake_def to_wake_absent EINVAL_def)
next
  assume "i < length tegra186_gpio_wakes \<and> tegra186_gpio_wakes ! i = hwirq_gpio d"
  then have "tegra186_gpio_to_wake (hwirq_gpio d) s =
      (int i, emit (Log (WakeFound (int i) (hwirq_gpio d))) s)"
    using hwirq_gpio_eq(2) [OF assms] by (intro to_wake_present) auto
  then show "tegra_gpio_irq_set_wake env d enable s =
          (tegra_pm_irq_set_wake env (int i) enable,
           s\<lparr>trace := trace s @
               [Log (WakeFound (int i) (hwirq_gpio d)), PmSetWake (int i) enable] @
               (if tegra_pm_irq_set_wake env (int i) enable \<noteq> 0
                then [Log (WakeFailed enable (tegra_pm_irq_set_wake env (int i) enable))]
                else [])\<rparr>)"
    by (simp add: tegra_gpio_irq_set_wake_def Let_def emit_def)
qed

theorem set_wake_lookup_witness:
  "(16 :: 64 word) < 256 \<and> (0 :: 64 word) < 256 \<and>
   hwirq_gpio \<lparr>irq = 0, hwirq = 0\<rparr> \<notin> set tegra186_gpio_wakes \<and>
   tegra_gpio_irq_set_wake rejecting \<lparr>irq = 0, hwirq = 0\<rparr> 1 hw_zero = (- 22, hw_zero) \<and>
   (9 :: nat) < length tegra186_gpio_wakes \<and>
   tegra186_gpio_wakes ! 9 = hwirq_gpio \<lparr>irq = 0, hwirq = 16\<rparr> \<and>
   tegra_gpio_irq_set_wake accepting \<lparr>irq = 0, hwirq = 16\<rparr> 1 hw_zero =
     (0, \<lparr>regs = (\<lambda>a. 0), trace = [Log (WakeFound 9 16), PmSetWake 9 1]\<rparr>) \<and>
   tegra_gpio_irq_set_wake rejecting \<lparr>irq = 0, hwirq = 16\<rparr> 1 hw_zero =
     (- 22, \<lparr>regs = (\<lambda>a. 0),
        trace = [Log (WakeFound 9 16), PmSetWake 9 1, Log (WakeFailed 1 (- 22))]\<rparr>)"
  using set_wake_lookup [of "\<lparr>irq = 0, hwirq = 0\<rparr>" rejecting 1 hw_zero 0]
    set_wake_lookup [of "\<lparr>irq = 0, hwirq = 16\<rparr>" accepting 1 hw_zero 9]
    set_wake_lookup [of "\<lparr>irq = 0, hwirq = 16\<rparr>" rejecting 1 hw_zero 9]
  by (simp add: hwirq_gpio_def wakes_defs accepting_def rejecting_def hw_zero_def)

subsection \<open>Trigger types\<close>

text \<open>
  Claim C3. For every hardware interrupt number below 256, \<open>tegra_gpio_irq_set_type\<close>
  decides on the sense bits of the requested type. For each of the five supported
  types it returns 0 and afterwards the pin's configuration register holds, in the
  2-bit field at offset 2, the trigger kind and, in bit 4, the polarity of the table:
  edge rising gives single edge and high, edge falling single edge and low, edge both
  gives both edges (the polarity is not constrained), level high gives level and high,
  level low gives level and low. For any other sense value it returns \<open>-EINVAL\<close>, the
  registers are as before, and the trace has grown by at most the log line of the wake
  lookup: no register was read or written.
\<close>

theorem set_type_table:
  assumes "hwirq d < 256"
  shows "let cfg = translate (word_of_int (hwirq_gpio d)) GPIO_ENB_CONFIG_REG;
             r = fst (tegra_gpio_irq_set_type d type s);
             s' = snd (tegra_gpio_irq_set_type d type s);
             kind = drop_bit 2 (regs s' cfg) AND 3;
             high = bit (regs s' cfg) 4;
             sense = type AND IRQ_TYPE_SENSE_MASK
         in (sense = IRQ_TYPE_EDGE_RISING \<longrightarrow>
               r = 0 \<and> kind = GPIO_INT_LVL_SINGLE_EDGE_TRIGGER \<and> high)
          \<and> (sense = IRQ_TYPE_EDGE_FALLING \<longrightarrow>
               r = 0 \<and> kind = GPIO_INT_LVL_SINGLE_EDGE_TRIGGER \<and> \<not> high)
          \<and> (sense = IRQ_TYPE_EDGE_BOTH \<longrightarrow>
               r = 0 \<and> kind = GPIO_INT_LVL_BOTH_EDGE_TRIGGER)
          \<and> (sense = IRQ_TYPE_LEVEL_HIGH \<longrightarrow>
               r = 0 \<and> kind = GPIO_INT_LVL_LEVEL_TRIGGER \<and> high)
          \<and> (sense = IRQ_TYPE_LEVEL_LOW \<longrightarrow>
               r = 0 \<and> kind = GPIO_INT_LVL_LEVEL_TRIGGER \<and> \<not> high)
          \<and> (sense \<notin> {IRQ_TYPE_EDGE_RISING, IRQ_TYPE_EDGE_FALLING, IRQ_TYPE_EDGE_BOTH,
                        IRQ_TYPE_LEVEL_HIGH, IRQ_TYPE_LEVEL_LOW} \<longrightarrow>
               r = - EINVAL \<and> regs s' = regs s \<and>
               (trace s' = trace s \<or>
                (\<exists>i. trace s' = trace s @ [Log (WakeFound i (hwirq_gpio d))])))"
proof -
  let ?sense = "type AND IRQ_TYPE_SENSE_MASK"
  have rising: "?sense = IRQ_TYPE_EDGE_RISING \<Longrightarrow>
      irq_type_switch type = Some (TRIGGER_LEVEL_HIGH, GPIO_INT_LVL_SINGLE_EDGE_TRIGGER)"
    and falling: "?sense = IRQ_TYPE_EDGE_FALLING \<Longrightarrow>
      irq_type_switch type = Some (TRIGGER_LEVEL_LOW, GPIO_INT_LVL_SINGLE_EDGE_TRIGGER)"
    and both: "?sense = IRQ_TYPE_EDGE_BOTH \<Longrightarrow>
      irq_type_switch type = Some (0, GPIO_INT_LVL_BOTH_EDGE_TRIGGER)"
    and high: "?sense = IRQ_TYPE_LEVEL_HIGH \<Longrightarrow>
      irq_type_switch type = Some (TRIGGER_LEVEL_HIGH, GPIO_INT_LVL_LEVEL_TRIGGER)"
    and low: "?sense = IRQ_TYPE_LEVEL_LOW \<Longrightarrow>
      irq_type_switch type = Some (TRIGGER_LEVEL_LOW, GPIO_INT_LVL_LEVEL_TRIGGER)"
    and other: "?sense \<notin> {IRQ_TYPE_EDGE_RISING, IRQ_TYPE_EDGE_FALLING, IRQ_TYPE_EDGE_BOTH,
        IRQ_TYPE_LEVEL_HIGH, IRQ_TYPE_LEVEL_LOW} \<Longrightarrow> irq_type_switch type = None"
    by (simp_all add: irq_type_switch_def Let_def irq_consts)
  show ?thesis
    unfolding Let_def
  proof (intro conjI impI)
    assume "?sense \<notin> {IRQ_TYPE_EDGE_RISING, IRQ_TYPE_EDGE_FALLING, IRQ_TYPE_EDGE_BOTH,
        IRQ_TYPE_LEVEL_HIGH, IRQ_TYPE_LEVEL_LOW}"
    note r = set_type_reject [OF other [OF this], of d s]
    show "fst (tegra_gpio_irq_set_type d type s) = - EINVAL"
      and "regs (snd (tegra_gpio_irq_set_type d type s)) = regs s"
      and "trace (snd (tegra_gpio_irq_set_type d type s)) = trace s \<or>
        (\<exists>i. trace (snd (tegra_gpio_irq_set_type d type s)) =
          trace s @ [Log (WakeFound i (hwirq_gpio d))])"
      using to_wake_effect [of "hwirq_gpio d" s] by (simp_all add: r)
  next
    assume a: "?sense = IRQ_TYPE_EDGE_RISING"
    show "fst (tegra_gpio_irq_set_type d type s) = 0"
      by (rule set_type_case(1) [OF assms rising [OF a]]) (simp_all add: irq_consts)
    show "drop_bit 2 (regs (snd (tegra_gpio_irq_set_type d type s))
        (translate (word_of_int (hwirq_gpio d)) GPIO_ENB_CONFIG_REG)) AND 3 =
        GPIO_INT_LVL_SINGLE_EDGE_TRIGGER"
      by (rule set_type_case(2) [OF assms rising [OF a]]) (simp_all add: irq_consts)
    show "bit (regs (snd (tegra_gpio_irq_set_type d type s))
        (translate (word_of_int (hwirq_gpio d)) GPIO_ENB_CONFIG_REG)) 4"
      using set_type_case(3) [OF assms rising [OF a], of s] by (simp add: irq_consts)
  next
    assume a: "?sense = IRQ_TYPE_EDGE_FALLING"
    show "fst (tegra_gpio_irq_set_type d type s) = 0"
      by (rule set_type_case(1) [OF assms falling [OF a]]) (simp_all add: irq_consts)
    show "drop_bit 2 (regs (snd (tegra_gpio_irq_set_type d type s))
        (translate (word_of_int (hwirq_gpio d)) GPIO_ENB_CONFIG_REG)) AND 3 =
        GPIO_INT_LVL_SINGLE_EDGE_TRIGGER"
      by (rule set_type_case(2) [OF assms falling [OF a]]) (simp_all add: irq_consts)
    show "\<not> bit (regs (snd (tegra_gpio_irq_set_type d type s))
        (translate (word_of_int (hwirq_gpio d)) GPIO_ENB_CONFIG_REG)) 4"
      using set_type_case(3) [OF assms falling [OF a], of s] by (simp add: irq_consts)
  next
    assume a: "?sense = IRQ_TYPE_EDGE_BOTH"
    show "fst (tegra_gpio_irq_set_type d type s) = 0"
      by (rule set_type_case(1) [OF assms both [OF a]]) (simp_all add: irq_consts)
    show "drop_bit 2 (regs (snd (tegra_gpio_irq_set_type d type s))
        (translate (word_of_int (hwirq_gpio d)) GPIO_ENB_CONFIG_REG)) AND 3 =
        GPIO_INT_LVL_BOTH_EDGE_TRIGGER"
      by (rule set_type_case(2) [OF assms both [OF a]]) (simp_all add: irq_consts)
  next
    assume a: "?sense = IRQ_TYPE_LEVEL_HIGH"
    show "fst (tegra_gpio_irq_set_type d type s) = 0"
      by (rule set_type_case(1) [OF assms high [OF a]]) (simp_all add: irq_consts)
    show "drop_bit 2 (regs (snd (tegra_gpio_irq_set_type d type s))
        (translate (word_of_int (hwirq_gpio d)) GPIO_ENB_CONFIG_REG)) AND 3 =
        GPIO_INT_LVL_LEVEL_TRIGGER"
      by (rule set_type_case(2) [OF assms high [OF a]]) (simp_all add: irq_consts)
    show "bit (regs (snd (tegra_gpio_irq_set_type d type s))
        (translate (word_of_int (hwirq_gpio d)) GPIO_ENB_CONFIG_REG)) 4"
      using set_type_case(3) [OF assms high [OF a], of s] by (simp add: irq_consts)
  next
    assume a: "?sense = IRQ_TYPE_LEVEL_LOW"
    show "fst (tegra_gpio_irq_set_type d type s) = 0"
      by (rule set_type_case(1) [OF assms low [OF a]]) (simp_all add: irq_consts)
    show "drop_bit 2 (regs (snd (tegra_gpio_irq_set_type d type s))
        (translate (word_of_int (hwirq_gpio d)) GPIO_ENB_CONFIG_REG)) AND 3 =
        GPIO_INT_LVL_LEVEL_TRIGGER"
      by (rule set_type_case(2) [OF assms low [OF a]]) (simp_all add: irq_consts)
    show "\<not> bit (regs (snd (tegra_gpio_irq_set_type d type s))
        (translate (word_of_int (hwirq_gpio d)) GPIO_ENB_CONFIG_REG)) 4"
      using set_type_case(3) [OF assms low [OF a], of s] by (simp add: irq_consts)
  qed
qed

theorem set_type_table_witness:
  "(0 :: 64 word) < 256 \<and>
   translate (word_of_int (hwirq_gpio \<lparr>irq = 0, hwirq = 0\<rparr>)) GPIO_ENB_CONFIG_REG = (0, 0x12000) \<and>
   fst (tegra_gpio_irq_set_type \<lparr>irq = 0, hwirq = 0\<rparr> 1 hw_zero) = 0 \<and>
   drop_bit 2 (regs (snd (tegra_gpio_irq_set_type \<lparr>irq = 0, hwirq = 0\<rparr> 1 hw_zero))
     (0, 0x12000)) AND 3 = 2 \<and>
   bit (regs (snd (tegra_gpio_irq_set_type \<lparr>irq = 0, hwirq = 0\<rparr> 1 hw_zero)) (0, 0x12000)) 4 \<and>
   drop_bit 2 (regs (snd (tegra_gpio_irq_set_type \<lparr>irq = 0, hwirq = 0\<rparr> 2 hw_zero))
     (0, 0x12000)) AND 3 = 2 \<and>
   \<not> bit (regs (snd (tegra_gpio_irq_set_type \<lparr>irq = 0, hwirq = 0\<rparr> 2 hw_zero)) (0, 0x12000)) 4 \<and>
   drop_bit 2 (regs (snd (tegra_gpio_irq_set_type \<lparr>irq = 0, hwirq = 0\<rparr> 3 hw_zero))
     (0, 0x12000)) AND 3 = 3 \<and>
   drop_bit 2 (regs (snd (tegra_gpio_irq_set_type \<lparr>irq = 0, hwirq = 0\<rparr> 4 hw_zero))
     (0, 0x12000)) AND 3 = 1 \<and>
   bit (regs (snd (tegra_gpio_irq_set_type \<lparr>irq = 0, hwirq = 0\<rparr> 4 hw_zero)) (0, 0x12000)) 4 \<and>
   drop_bit 2 (regs (snd (tegra_gpio_irq_set_type \<lparr>irq = 0, hwirq = 0\<rparr> 8 hw_zero))
     (0, 0x12000)) AND 3 = 1 \<and>
   \<not> bit (regs (snd (tegra_gpio_irq_set_type \<lparr>irq = 0, hwirq = 0\<rparr> 8 hw_zero)) (0, 0x12000)) 4 \<and>
   fst (tegra_gpio_irq_set_type \<lparr>irq = 0, hwirq = 0\<rparr> 0 hw_zero) = - 22 \<and>
   regs (snd (tegra_gpio_irq_set_type \<lparr>irq = 0, hwirq = 0\<rparr> 0 hw_zero)) = regs hw_zero \<and>
   fst (tegra_gpio_irq_set_type \<lparr>irq = 0, hwirq = 0\<rparr> 5 hw_zero) = - 22"
proof -
  have t: "translate (word_of_int (hwirq_gpio \<lparr>irq = 0, hwirq = 0\<rparr>)) GPIO_ENB_CONFIG_REG =
      (0, 0x12000)"
    by (simp add: hwirq_gpio_def translate_def cinfo_defs gpio_consts)
  show ?thesis
    using set_type_table [of "\<lparr>irq = 0, hwirq = 0\<rparr>" 1 hw_zero]
      set_type_table [of "\<lparr>irq = 0, hwirq = 0\<rparr>" 2 hw_zero]
      set_type_table [of "\<lparr>irq = 0, hwirq = 0\<rparr>" 3 hw_zero]
      set_type_table [of "\<lparr>irq = 0, hwirq = 0\<rparr>" 4 hw_zero]
      set_type_table [of "\<lparr>irq = 0, hwirq = 0\<rparr>" 8 hw_zero]
      set_type_table [of "\<lparr>irq = 0, hwirq = 0\<rparr>" 0 hw_zero]
      set_type_table [of "\<lparr>irq = 0, hwirq = 0\<rparr>" 5 hw_zero]
    unfolding t Let_def by (simp add: irq_consts EINVAL_def)
qed

subsection \<open>Demultiplexer dispatch order\<close>

text \<open>
  Claim C4. For every controller number from 0 to 6 and whatever the handlers do, one
  run of \<open>tegra_gpio_irq_handler_desc\<close> dispatches exactly the pins of \<open>demux_order\<close>,
  in that order, and leaves the registers as \<open>demux_order\<close> does: the controller's port
  slots in ascending order and, within each port's 8-bit pending bitmap (read once,
  before the port's first dispatch), the set bits in ascending order. In particular, on
  controller 3 (ports 1, 2 and 3), when port 1 has nothing pending and the pending
  bitmap of port 2 is \<open>0b10010001\<close>, the pins 16, 20 and 23 are dispatched, in this
  order, followed only by what port 3 has pending after their handlers have run; when
  that is nothing, exactly 16, 20 and 23 are dispatched. Whatever the handlers do, the
  pins dispatched in one run are strictly ascending in \<open>dispatch_before\<close> (by the index
  of their port in the controller, then by their bit), and all belong to ports of the
  controller.
\<close>

theorem demux_dispatch_order:
  assumes "0 \<le> c" and "c < MAX_GPIO_CONTROLLERS"
  shows "dispatched (trace (tegra_gpio_irq_handler_desc env c s)) =
        dispatched (trace s) @ fst (demux_order env c (regs s))
    \<and> regs (tegra_gpio_irq_handler_desc env c s) = snd (demux_order env c (regs s))
    \<and> (c = 3 \<and> regs s (int_status_reg 1) = 0 \<and> regs s (int_status_reg 2) = 0x91 \<longrightarrow>
        dispatched (trace (tegra_gpio_irq_handler_desc env c s)) =
          dispatched (trace s) @ [16, 20, 23] @
            pending_pins (generic_handle_irq env 23 (generic_handle_irq env 20
              (generic_handle_irq env 16 (regs s)))) 3)
    \<and> (c = 3 \<and> regs s (int_status_reg 1) = 0 \<and> regs s (int_status_reg 2) = 0x91 \<and>
        generic_handle_irq env 23 (generic_handle_irq env 20
          (generic_handle_irq env 16 (regs s))) (int_status_reg 3) = 0 \<longrightarrow>
        dispatched (trace (tegra_gpio_irq_handler_desc env c s)) =
          dispatched (trace s) @ [16, 20, 23])
    \<and> sorted_wrt dispatch_before (fst (demux_order env c (regs s)))
    \<and> list_all (\<lambda>g. cont_id (tegra_gpio_cinfo ! (unat g div 8)) = c)
        (fst (demux_order env c (regs s)))"
proof -
  note d = handler_dispatched [OF assms, of env s]
  note o = demux_order_sorted [OF assms, of env "regs s"]
  have e: "fst (demux_order env 3 (regs s)) = [16, 20, 23] @
      pending_pins (generic_handle_irq env 23 (generic_handle_irq env 20
        (generic_handle_irq env 16 (regs s)))) 3"
    if "regs s (int_status_reg 1) = 0" "regs s (int_status_reg 2) = 0x91"
  proof -
    have p1: "pending_pins (regs s) (Suc 0) = []"
      and p2: "pending_pins (regs s) 2 = [16, 20, 23]"
      using that by (simp_all add: pending_pins_def upt8)
    show ?thesis
      unfolding demux_order_def MAX_GPIO_PORTS_def controller_ports
      by (simp add: demux_port_def Let_def p1 p2)
  qed
  have z: "pending_pins r 3 = []" if "r (int_status_reg 3) = 0" for r
    using that by (simp add: pending_pins_def)
  from d e z o show ?thesis by auto
qed

theorem demux_dispatch_order_witness:
  "(0 :: int) \<le> 3 \<and> 3 < MAX_GPIO_CONTROLLERS \<and>
   cont_id (tegra_gpio_cinfo ! 2) = 3 \<and> int_status_reg 2 = (0, 0x13304) \<and>
   dispatched (trace (tegra_gpio_irq_handler_desc accepting 3
     \<lparr>regs = (\<lambda>a. if a = (0, 0x13304) then 0x91 else 0), trace = []\<rparr>)) = [16, 20, 23] \<and>
   dispatched (trace (tegra_gpio_irq_handler_desc acking 3
     \<lparr>regs = (\<lambda>a. if a = (0, 0x13304) then 0x91 else 0), trace = []\<rparr>)) = [16, 20, 23] \<and>
   dispatched (trace (tegra_gpio_irq_handler_desc raising 3
     \<lparr>regs = (\<lambda>a. if a = (0, 0x13304) then 0x91 else 0), trace = []\<rparr>)) = [16, 20, 23, 24]"
proof -
  let ?s = "\<lparr>regs = (\<lambda>a. if a = (0, 0x13304) then 0x91 else 0), trace = []\<rparr>"
  have i: "int_status_reg 2 = (0, 0x13304)" "int_status_reg 1 = (0, 0x13104)"
    "int_status_reg 3 = (0, 0x13504)" "int_status_reg (Suc 0) = (0, 0x13104)"
    by (simp_all add: int_status_reg_def cinfo_defs)
  have c: "(0 :: int) \<le> 3" "3 < MAX_GPIO_CONTROLLERS"
    by (simp_all add: MAX_GPIO_CONTROLLERS_def)
  note t = demux_dispatch_order [OF c, of _ ?s]
  have u: "unat (16 :: u32) div 8 = 2" "unat (20 :: u32) div 8 = 2" "unat (23 :: u32) div 8 = 2"
    by simp_all
  from t [of accepting, THEN conjunct2, THEN conjunct2, THEN conjunct2, THEN conjunct1]
  have 1: "dispatched (trace (tegra_gpio_irq_handler_desc accepting 3 ?s)) = [16, 20, 23]"
    by (simp add: i accepting_def)
  from t [of acking, THEN conjunct2, THEN conjunct2, THEN conjunct2, THEN conjunct1]
  have 2: "dispatched (trace (tegra_gpio_irq_handler_desc acking 3 ?s)) = [16, 20, 23]"
    by (simp add: i u acking_def)
  from t [of raising, THEN conjunct2, THEN conjunct2, THEN conjunct1]
  have 3: "dispatched (trace (tegra_gpio_irq_handler_desc raising 3 ?s)) = [16, 20, 23, 24]"
    by (simp add: i raising_def pending_pins_def upt8)
  from 1 2 3 c i show ?thesis by (simp add: cinfo_defs)
qed

end
